theory Spec2Isabelle
  imports Main
begin

section \<open>Shared constants and types (packages/shared/src/index.js)\<close>

text \<open>
  JavaScript strings are modelled as Isabelle strings. A character stands for one code
  unit below 256, so \<open>length\<close> is \<open>.length\<close> and \<open>of_char\<close> is \<open>charCodeAt\<close> on such text.
\<close>

text \<open>\<open>AUTH_STATES\<close>: the four lifecycle phases of the session store.\<close>

datatype auth_phase = UNAUTHENTICATED | AUTHENTICATING | AUTHENTICATED | ERROR

text \<open>The \<open>User\<close> object the server returns; only these fields are read by the client.\<close>

record user =
  user_id :: string
  username :: string
  email :: string

section \<open>Session store (AuthContext: reducer and actions)\<close>

record auth_state =
  user :: "user option"
  isAuthenticated :: bool
  loading :: bool
  error :: "string option"
  authState :: auth_phase

datatype auth_action =
    SET_LOADING bool
  | SET_USER "user option"
  | SET_ERROR "string option"
  | CLEAR_ERROR
  | LOGOUT
  | RESET
  | OTHER_ACTION

definition initialState :: auth_state where
  "initialState =
     \<lparr>user = None, isAuthenticated = False, loading = False, error = None,
      authState = UNAUTHENTICATED\<rparr>"

fun authReducer :: "auth_state \<Rightarrow> auth_action \<Rightarrow> auth_state" where
  "authReducer state (SET_LOADING payload) =
     state\<lparr>loading := payload, error := None,
           authState := (if payload then AUTHENTICATING else authState state)\<rparr>"
| "authReducer state (SET_USER payload) =
     state\<lparr>user := payload, isAuthenticated := (payload \<noteq> None), loading := False,
           error := None,
           authState := (if payload \<noteq> None then AUTHENTICATED else UNAUTHENTICATED)\<rparr>"
| "authReducer state (SET_ERROR payload) =
     state\<lparr>error := payload, loading := False, authState := ERROR\<rparr>"
| "authReducer state CLEAR_ERROR =
     state\<lparr>error := None,
           authState := (if user state \<noteq> None then AUTHENTICATED else UNAUTHENTICATED)\<rparr>"
| "authReducer state LOGOUT = initialState\<lparr>authState := UNAUTHENTICATED\<rparr>"
| "authReducer state RESET = initialState"
| "authReducer state OTHER_ACTION = state"

text \<open>
  \<open>signup\<close> and \<open>login\<close> begin with the same two dispatches, issued before the call to the
  credential service; the reducer applies them in the order they were dispatched.
\<close>

definition signup_dispatch_prefix :: "auth_state \<Rightarrow> auth_state" where
  "signup_dispatch_prefix state = authReducer (authReducer state (SET_LOADING True)) CLEAR_ERROR"

definition login_dispatch_prefix :: "auth_state \<Rightarrow> auth_state" where
  "login_dispatch_prefix state = authReducer (authReducer state (SET_LOADING True)) CLEAR_ERROR"

text \<open>\<open>logout\<close> and the start-up restoration dispatch \<open>SET_LOADING\<close> alone.\<close>

definition logout_dispatch_prefix :: "auth_state \<Rightarrow> auth_state" where
  "logout_dispatch_prefix state = authReducer state (SET_LOADING True)"

section \<open>Validation (packages/shared/src/index.js)\<close>

text \<open>
  \<open>CHECK_MARK\<close> is U+2714, the first character of the success messages. It lies outside
  the characters of the model, and is kept as the three bytes of its UTF-8 form.
\<close>

definition CHECK_MARK :: string where
  "CHECK_MARK = [CHR 0xE2, CHR 0x9C, CHR 0x94]"

definition SUCCESS_SIGNUP :: string where
  "SUCCESS_SIGNUP = CHECK_MARK @ '' Account created successfully''"

definition SUCCESS_LOGIN :: string where
  "SUCCESS_LOGIN = CHECK_MARK @ '' Login successful''"

definition SUCCESS_LOGOUT :: string where
  "SUCCESS_LOGOUT = CHECK_MARK @ '' Logged out successfully''"

definition SUCCESS_AUTO_LOGIN :: string where
  "SUCCESS_AUTO_LOGIN = CHECK_MARK @ '' You are now logged in''"

definition USERNAME_EXISTS :: string where "USERNAME_EXISTS = ''Username already exists''"
definition EMAIL_EXISTS :: string where "EMAIL_EXISTS = ''Email already registered''"
definition INVALID_CREDENTIALS :: string where "INVALID_CREDENTIALS = ''Invalid credentials''"
definition VALIDATION_ERROR :: string where
  "VALIDATION_ERROR = ''Please check your input and try again''"
definition SERVER_ERROR :: string where "SERVER_ERROR = ''Server error. Please try again later.''"
definition USERNAME_REQUIRED :: string where "USERNAME_REQUIRED = ''Username is required''"
definition USERNAME_TOO_SHORT :: string where
  "USERNAME_TOO_SHORT = ''Username must be at least 3 characters''"
definition USERNAME_TOO_LONG :: string where
  "USERNAME_TOO_LONG = ''Username must be no more than 50 characters''"
definition USERNAME_INVALID_FORMAT :: string where
  "USERNAME_INVALID_FORMAT = ''Username can only contain letters, numbers, and underscores''"
definition EMAIL_REQUIRED :: string where "EMAIL_REQUIRED = ''Email is required''"
definition EMAIL_INVALID_FORMAT :: string where
  "EMAIL_INVALID_FORMAT = ''Please enter a valid email address''"
definition PASSWORD_REQUIRED :: string where "PASSWORD_REQUIRED = ''Password is required''"
definition PASSWORD_TOO_SHORT :: string where
  "PASSWORD_TOO_SHORT = ''Password must be at least 8 characters''"
definition PASSWORD_MISMATCH :: string where "PASSWORD_MISMATCH = ''Passwords do not match''"
definition ACCOUNT_LOCKED :: string where
  "ACCOUNT_LOCKED = ''Account temporarily locked. Please try again later.''"

subsection \<open>Strings\<close>

text \<open>
  White space and line terminators, as \<open>trim\<close> and the class \<open>\s\<close> of a regular expression
  read them, among the characters of the model: tab, line feed, vertical tab, form feed,
  carriage return, space and the no-break space.
\<close>

definition is_space :: "char \<Rightarrow> bool" where
  "is_space c = (of_char c \<in> {9, 10, 11, 12, 13, 32, 160 :: nat})"

definition trim :: "string \<Rightarrow> string" where
  "trim s = rev (dropWhile is_space (rev (dropWhile is_space s)))"

definition startsWith :: "string \<Rightarrow> string \<Rightarrow> bool" where
  "startsWith s p = (take (length p) s = p)"

text \<open>\<open>s.includes(sub)\<close>: \<open>sub\<close> occurs in \<open>s\<close> at some position.\<close>

definition str_includes :: "string \<Rightarrow> string \<Rightarrow> bool" where
  "str_includes s sub = list_ex (\<lambda>i. startsWith (drop i s) sub) [0 ..< Suc (length s)]"

text \<open>\<open>toLowerCase\<close> on the characters of the model: the letters A to Z and the accented capitals.\<close>

definition lower_char :: "char \<Rightarrow> char" where
  "lower_char c =
     (let n = (of_char c :: nat) in
      if (65 \<le> n \<and> n \<le> 90) \<or> (192 \<le> n \<and> n \<le> 214) \<or> (216 \<le> n \<and> n \<le> 222)
      then char_of (n + 32) else c)"

definition toLowerCase :: "string \<Rightarrow> string" where
  "toLowerCase s = map lower_char s"

text \<open>The decimal digits of a number, as a template literal prints it.\<close>

fun show_nat :: "nat \<Rightarrow> string" where
  "show_nat n =
     (if n < 10 then [char_of (48 + n)]
      else show_nat (n div 10) @ [char_of (48 + n mod 10)])"

subsection \<open>Field rules\<close>

text \<open>A form's data is the object the collector fills: a value for some of the field names.\<close>

type_synonym formdata = "string \<rightharpoonup> string"

text \<open>\<open>/^[a-zA-Z0-9_]+$/\<close>: one or more characters, each a letter, a digit or an underscore.\<close>

definition word_char :: "char \<Rightarrow> bool" where
  "word_char c =
     (let n = (of_char c :: nat) in
      (97 \<le> n \<and> n \<le> 122) \<or> (65 \<le> n \<and> n \<le> 90) \<or> (48 \<le> n \<and> n \<le> 57) \<or> n = 95)"

definition username_pattern :: "string \<Rightarrow> bool" where
  "username_pattern s = (s \<noteq> [] \<and> list_all word_char s)"

text \<open>
  \<open>/^[^\s@]+@[^\s@]+\.[^\s@]+$/\<close>: the text splits at an \<open>@\<close> at position \<open>i\<close> and a dot at
  a later position \<open>j\<close> into three parts, none empty, whose characters are neither white
  space nor \<open>@\<close>.
\<close>

definition plain_char :: "char \<Rightarrow> bool" where
  "plain_char c = (\<not> is_space c \<and> c \<noteq> CHR ''@'')"

definition email_pattern :: "string \<Rightarrow> bool" where
  "email_pattern s =
     list_ex (\<lambda>i. list_ex (\<lambda>j.
         s ! i = CHR ''@'' \<and> s ! j = CHR ''.'' \<and> 0 < i \<and> i + 1 < j \<and> j + 1 < length s
         \<and> list_all plain_char (take i s)
         \<and> list_all plain_char (take (j - (i + 1)) (drop (i + 1) s))
         \<and> list_all plain_char (drop (j + 1) s))
       [0 ..< length s]) [0 ..< length s]"

record rules =
  minLength :: "nat option"
  maxLength :: "nat option"
  pattern :: "(string \<Rightarrow> bool) option"
  message :: "string option"

definition VALIDATION :: "string \<Rightarrow> rules option" where
  "VALIDATION field =
     (if field = ''username'' then
        Some \<lparr>minLength = Some 3, maxLength = Some 50, pattern = Some username_pattern,
              message = Some ''Username must be 3-50 characters, alphanumeric and underscore only''\<rparr>
      else if field = ''email'' then
        Some \<lparr>minLength = None, maxLength = None, pattern = Some email_pattern,
              message = Some ''Please enter a valid email address''\<rparr>
      else if field = ''password'' then
        Some \<lparr>minLength = Some 8, maxLength = None, pattern = None,
              message = Some ''Password must be at least 8 characters long''\<rparr>
      else None)"

record field_validation =
  fv_isValid :: bool
  fv_errors :: "string list"
  fv_message :: "string option"

definition validateField :: "string \<Rightarrow> string \<Rightarrow> field_validation" where
  "validateField field val =
     (case VALIDATION field of
        None \<Rightarrow> \<lparr>fv_isValid = True, fv_errors = [], fv_message = None\<rparr>
      | Some r \<Rightarrow>
          (let errors =
                 (case minLength r of
                    Some m \<Rightarrow>
                      if m \<noteq> 0 \<and> length val < m
                      then [''Must be at least '' @ show_nat m @ '' characters long''] else []
                  | None \<Rightarrow> [])
               @ (case maxLength r of
                    Some m \<Rightarrow>
                      if m \<noteq> 0 \<and> length val > m
                      then [''Must be no more than '' @ show_nat m @ '' characters long''] else []
                  | None \<Rightarrow> [])
               @ (case pattern r of
                    Some test \<Rightarrow>
                      if \<not> test val
                      then [case message r of Some m \<Rightarrow> if m \<noteq> [] then m else ''Invalid format''
                                            | None \<Rightarrow> ''Invalid format'']
                      else []
                  | None \<Rightarrow> [])
           in \<lparr>fv_isValid = (errors = []), fv_errors = errors,
               fv_message = (case errors of [] \<Rightarrow> None | e # _ \<Rightarrow> Some e)\<rparr>))"

text \<open>
  A validation error names its field and carries a message; the one error that
  \<open>validateSignupRequest\<close> builds from the generic message of \<open>validateField\<close> also
  carries the refused value. The message of that error, \<open>usernameValidation.message\<close>, is
  the first of the field's errors, \<open>errorMessage\<close>.
\<close>

record verr =
  err_field :: string
  err_text :: string
  err_value :: "string option"

record validation =
  isValid :: bool
  errors :: "verr list"

text \<open>
  \<open>!v\<close> for a field \<open>v\<close> of the data: the field is missing or empty. The checks of the
  user name, the e-mail address and \<open>emailOrUsername\<close> also refuse white space alone
  (\<open>v.trim().length === 0\<close>).
\<close>

definition falsy :: "string option \<Rightarrow> bool" where
  "falsy v = (case v of None \<Rightarrow> True | Some s \<Rightarrow> s = [])"

definition verr_of :: "string \<Rightarrow> string \<Rightarrow> verr" where
  "verr_of f m = \<lparr>err_field = f, err_text = m, err_value = None\<rparr>"

definition validate_username :: "formdata \<Rightarrow> verr list" where
  "validate_username data =
     (case data ''username'' of
        None \<Rightarrow> [verr_of ''username'' USERNAME_REQUIRED]
      | Some v \<Rightarrow>
          if v = [] \<or> length (trim v) = 0 then [verr_of ''username'' USERNAME_REQUIRED]
          else
            (let usernameValidation = validateField ''username'' v in
             if \<not> fv_isValid usernameValidation then
               (case fv_errors usernameValidation of
                  [] \<Rightarrow> []
                | errorMessage # _ \<Rightarrow>
                    if str_includes errorMessage ''at least''
                    then [verr_of ''username'' USERNAME_TOO_SHORT]
                    else if str_includes errorMessage ''no more than''
                    then [verr_of ''username'' USERNAME_TOO_LONG]
                    else if str_includes errorMessage ''Invalid format''
                    then [verr_of ''username'' USERNAME_INVALID_FORMAT]
                    else [\<lparr>err_field = ''username'', err_text = errorMessage,
                           err_value = Some v\<rparr>])
             else []))"

definition validate_email :: "formdata \<Rightarrow> verr list" where
  "validate_email data =
     (case data ''email'' of
        None \<Rightarrow> [verr_of ''email'' EMAIL_REQUIRED]
      | Some v \<Rightarrow>
          if v = [] \<or> length (trim v) = 0 then [verr_of ''email'' EMAIL_REQUIRED]
          else if \<not> fv_isValid (validateField ''email'' v)
          then [verr_of ''email'' EMAIL_INVALID_FORMAT]
          else [])"

definition validate_password :: "formdata \<Rightarrow> verr list" where
  "validate_password data =
     (case data ''password'' of
        None \<Rightarrow> [verr_of ''password'' PASSWORD_REQUIRED]
      | Some v \<Rightarrow>
          if length v = 0 then [verr_of ''password'' PASSWORD_REQUIRED]
          else if \<not> fv_isValid (validateField ''password'' v)
          then [verr_of ''password'' PASSWORD_TOO_SHORT]
          else [])"

definition validate_confirmPassword :: "formdata \<Rightarrow> verr list" where
  "validate_confirmPassword data =
     (if falsy (data ''confirmPassword'')
      then [verr_of ''confirmPassword'' ''Password confirmation is required'']
      else if data ''password'' \<noteq> data ''confirmPassword''
      then [verr_of ''confirmPassword'' PASSWORD_MISMATCH]
      else [])"

text \<open>\<open>validateSignupRequest\<close> runs its four checks in order, each pushing onto \<open>errors\<close>.\<close>

definition validateSignupRequest :: "formdata \<Rightarrow> validation" where
  "validateSignupRequest data =
     (let errors = validate_username data @ validate_email data @ validate_password data
                   @ validate_confirmPassword data
      in \<lparr>isValid = (errors = []), errors = errors\<rparr>)"

definition validateLoginRequest :: "formdata \<Rightarrow> validation" where
  "validateLoginRequest data =
     (let errors =
            (case data ''emailOrUsername'' of
               None \<Rightarrow> [verr_of ''emailOrUsername'' ''Email or username is required'']
             | Some v \<Rightarrow>
                 if v = [] \<or> length (trim v) = 0
                 then [verr_of ''emailOrUsername'' ''Email or username is required''] else [])
          @ (if falsy (data ''password'') then [verr_of ''password'' PASSWORD_REQUIRED] else [])
      in \<lparr>isValid = (errors = []), errors = errors\<rparr>)"

section \<open>Credential service client (AuthClient)\<close>

text \<open>
  The response of the credential service, as far as the client reads it, and the
  \<open>APIError\<close> the client throws. \<open>post\<close> either resolves with the response or rejects with
  an \<open>APIError\<close>: which of the two is the network's answer, an input of the model.
\<close>

record auth_response =
  success :: bool
  rmessage :: "string option"
  ruser :: "user option"
  rtoken :: "string option"

record api_erroror =
  api_message :: string
  api_status :: nat
  api_code :: string
  api_errors :: "verr list"

datatype post_outcome = Resolved auth_response | Rejected api_erroror

definition APIError :: "string \<Rightarrow> nat \<Rightarrow> string \<Rightarrow> verr list \<Rightarrow> api_erroror" where
  "APIError m st c es = \<lparr>api_message = m, api_status = st, api_code = c, api_errors = es\<rparr>"

text \<open>
  What the client shares with the session store and the terminal: the store's state, the
  two entries of the local storage, the requests sent to the service (endpoint and body, in
  order) and the \<open>antec:authChange\<close> events emitted.
\<close>

record storage =
  stored_token :: "string option"
  stored_user :: "user option"

record world =
  auth :: auth_state
  store :: storage
  requests :: "(string \<times> formdata) list"
  emitted :: "user option list"

definition storeToken :: "world \<Rightarrow> string \<Rightarrow> world" where
  "storeToken w tok = w\<lparr>store := (store w)\<lparr>stored_token := Some tok\<rparr>\<rparr>"

definition storeUser :: "world \<Rightarrow> user \<Rightarrow> world" where
  "storeUser w u = w\<lparr>store := (store w)\<lparr>stored_user := Some u\<rparr>\<rparr>"

definition clearAuthData :: "world \<Rightarrow> world" where
  "clearAuthData w = w\<lparr>store := (store w)\<lparr>stored_token := None, stored_user := None\<rparr>\<rparr>"

definition post :: "world \<Rightarrow> string \<Rightarrow> formdata \<Rightarrow> world" where
  "post w endpoint body = w\<lparr>requests := requests w @ [(endpoint, body)]\<rparr>"

text \<open>\<open>if (response.success && response.token)\<close>: store the token, and the user if there is one.\<close>

definition store_session :: "world \<Rightarrow> auth_response \<Rightarrow> world" where
  "store_session w response =
     (case rtoken response of
        None \<Rightarrow> w
      | Some tok \<Rightarrow>
          if success response \<and> tok \<noteq> [] then
            (case ruser response of
               None \<Rightarrow> storeToken w tok
             | Some u \<Rightarrow> storeUser (storeToken w tok) u)
          else w)"

definition map_signup_error :: "verr \<Rightarrow> verr" where
  "map_signup_error err =
     (if err_field err = ''username'' \<and> str_includes (err_text err) ''already exists''
      then err\<lparr>err_text := USERNAME_EXISTS\<rparr>
      else if err_field err = ''email'' \<and> str_includes (err_text err) ''already registered''
      then err\<lparr>err_text := EMAIL_EXISTS\<rparr>
      else err)"

text \<open>The \<open>catch\<close> of \<open>signup\<close>: the error it throws for the error \<open>post\<close> rejected with.\<close>

definition signup_error :: "api_erroror \<Rightarrow> api_erroror" where
  "signup_error err =
     (if api_status err = 400 \<and> length (api_errors err) > 0 then
        (let mappedErrors = map map_signup_error (api_errors err) in
         APIError (case mappedErrors of m # _ \<Rightarrow> err_text m | [] \<Rightarrow> [])
           (api_status err) (api_code err) mappedErrors)
      else if (api_status err = 409 \<or> api_code err = ''USERNAME_EXISTS''
               \<or> api_code err = ''EMAIL_EXISTS'')
              \<and> (str_includes (toLowerCase (api_message err)) ''username''
                  \<or> api_code err = ''USERNAME_EXISTS'')
      then APIError USERNAME_EXISTS (api_status err) ''USERNAME_EXISTS'' []
      else if (api_status err = 409 \<or> api_code err = ''USERNAME_EXISTS''
               \<or> api_code err = ''EMAIL_EXISTS'')
              \<and> (str_includes (toLowerCase (api_message err)) ''email''
                  \<or> api_code err = ''EMAIL_EXISTS'')
      then APIError EMAIL_EXISTS (api_status err) ''EMAIL_EXISTS'' []
      else if api_status err \<ge> 500
      then APIError SERVER_ERROR (api_status err) ''SERVER_ERROR'' []
      else err)"

definition AuthClient_signup ::
  "world \<Rightarrow> formdata \<Rightarrow> post_outcome \<Rightarrow> (api_erroror + auth_response) \<times> world" where
  "AuthClient_signup w userData outcome =
     (let validation = validateSignupRequest userData in
      if \<not> isValid validation
      then (Inl (APIError VALIDATION_ERROR 400 ''VALIDATION_ERROR'' (errors validation)), w)
      else
        (let w1 = post w ''/auth/signup'' userData in
         case outcome of
           Resolved response \<Rightarrow> (Inr response, store_session w1 response)
         | Rejected err \<Rightarrow> (Inl (signup_error err), w1)))"

definition login_error :: "api_erroror \<Rightarrow> api_erroror" where
  "login_error err =
     (if api_status err = 401
      then APIError INVALID_CREDENTIALS (api_status err) ''INVALID_CREDENTIALS'' []
      else if api_code err = ''ACCOUNT_LOCKED''
      then APIError ACCOUNT_LOCKED (api_status err) ''ACCOUNT_LOCKED'' []
      else if api_status err \<ge> 500
      then APIError SERVER_ERROR (api_status err) ''SERVER_ERROR'' []
      else err)"

definition AuthClient_login ::
  "world \<Rightarrow> formdata \<Rightarrow> post_outcome \<Rightarrow> (api_erroror + auth_response) \<times> world" where
  "AuthClient_login w credentials outcome =
     (let validation = validateLoginRequest credentials in
      if \<not> isValid validation
      then (Inl (APIError VALIDATION_ERROR 400 ''VALIDATION_ERROR'' (errors validation)), w)
      else
        (let w1 = post w ''/auth/login'' credentials in
         case outcome of
           Resolved response \<Rightarrow> (Inr response, store_session w1 response)
         | Rejected err \<Rightarrow> (Inl (login_error err), w1)))"

text \<open>\<open>logout\<close> never throws: it clears the stored data whether the request succeeds or fails.\<close>

definition logout_success :: auth_response where
  "logout_success =
     \<lparr>success = True, rmessage = Some SUCCESS_LOGOUT, ruser = None, rtoken = None\<rparr>"

definition AuthClient_logout :: "world \<Rightarrow> post_outcome \<Rightarrow> auth_response \<times> world" where
  "AuthClient_logout w outcome =
     (let w1 = post w ''/auth/logout'' Map.empty in
      case outcome of
        Resolved response \<Rightarrow> (response, clearAuthData w1)
      | Rejected err \<Rightarrow> (logout_success, clearAuthData w1))"

section \<open>Session store: the actions (AuthContext)\<close>

definition dispatch :: "world \<Rightarrow> auth_action \<Rightarrow> world" where
  "dispatch w a = w\<lparr>auth := authReducer (auth w) a\<rparr>"

definition emitAuthChange :: "world \<Rightarrow> user option \<Rightarrow> world" where
  "emitAuthChange w u = w\<lparr>emitted := emitted w @ [u]\<rparr>"

text \<open>\<open>error.message || SERVER_ERROR\<close>\<close>

definition error_message_or_default :: "api_erroror \<Rightarrow> string" where
  "error_message_or_default err =
     (if api_message err \<noteq> [] then api_message err else SERVER_ERROR)"

text \<open>What \<open>signup\<close> and \<open>login\<close> do with the client's answer, after the \<open>await\<close>.\<close>

definition settle :: "(api_erroror + auth_response) \<times> world \<Rightarrow> (api_erroror + auth_response) \<times> world" where
  "settle r =
     (case r of
        (Inr response, w) \<Rightarrow>
          if success response then
            (case ruser response of
               Some u \<Rightarrow>
                 (Inr response, emitAuthChange (dispatch (storeUser w u) (SET_USER (Some u))) (Some u))
             | None \<Rightarrow> (Inr response, w))
          else (Inr response, dispatch w (SET_ERROR (rmessage response)))
      | (Inl err, w) \<Rightarrow>
          (Inl err, dispatch w (SET_ERROR (Some (error_message_or_default err)))))"

definition signup :: "world \<Rightarrow> formdata \<Rightarrow> post_outcome \<Rightarrow> (api_erroror + auth_response) \<times> world" where
  "signup w userData outcome =
     settle (AuthClient_signup (w\<lparr>auth := signup_dispatch_prefix (auth w)\<rparr>) userData outcome)"

definition login :: "world \<Rightarrow> formdata \<Rightarrow> post_outcome \<Rightarrow> (api_erroror + auth_response) \<times> world" where
  "login w credentials outcome =
     settle (AuthClient_login (w\<lparr>auth := login_dispatch_prefix (auth w)\<rparr>) credentials outcome)"

definition logout :: "world \<Rightarrow> post_outcome \<Rightarrow> auth_response \<times> world" where
  "logout w outcome =
     (let w1 = w\<lparr>auth := logout_dispatch_prefix (auth w)\<rparr>;
          w2 = snd (AuthClient_logout w1 outcome);
          w3 = clearAuthData w2;
          w4 = dispatch w3 LOGOUT;
          w5 = emitAuthChange w4 None
      in (logout_success, w5))"

section \<open>Prompt (PromptManager)\<close>

text \<open>
  \<open>getAuth()\<close> gives the prompt manager the context value, of which it reads
  \<open>isAuthenticated\<close> and \<open>user\<close>; \<open>None\<close> is a getter that returns nothing.
\<close>

definition getPlainPrompt :: "auth_state option \<Rightarrow> string" where
  "getPlainPrompt a =
     (case a of
        None \<Rightarrow> ''guest@antec:~$ ''
      | Some s \<Rightarrow>
          (case user s of
             Some u \<Rightarrow> if isAuthenticated s then username u @ ''@antec:~$ '' else ''guest@antec:~$ ''
           | None \<Rightarrow> ''guest@antec:~$ ''))"

section \<open>Password input and sequential form handler (passwordInput.js)\<close>

definition CRLF :: string where
  "CRLF = [CHR 0x0D, CHR 0x0A]"

definition PASSWORD_MASK :: string where
  "PASSWORD_MASK = ''*''"

text \<open>\<open>data.charCodeAt(0)\<close>; \<open>None\<close> is the \<open>NaN\<close> of the empty string, which equals no code.\<close>

definition charCodeAt0 :: "string \<Rightarrow> nat option" where
  "charCodeAt0 data = (case data of [] \<Rightarrow> None | c # _ \<Rightarrow> Some (of_char c))"

definition printable :: "string \<Rightarrow> bool" where
  "printable data = (case charCodeAt0 data of None \<Rightarrow> False | Some code \<Rightarrow> 32 \<le> code \<and> code \<le> 126)"

subsection \<open>PasswordInput\<close>

text \<open>
  The two callbacks are kept as the values \<open>start\<close> stored. \<open>handleInput\<close> invokes a
  callback as the last statement of its branch, after its assignments to the fields, so its
  model returns the updated fields, the terminal writes of the call, and what happens
  next: it returns a boolean (\<open>Done\<close>), or it invokes the stored \<open>onComplete\<close> with the
  password (\<open>InvokeComplete\<close>) or the stored \<open>onCancel\<close> (\<open>InvokeCancel\<close>) on those
  updated fields and returns \<open>true\<close> once the callback has returned.
\<close>

record ('c, 'x) PasswordInput =
  password :: string
  pw_isActive :: bool
  pw_onComplete :: "'c option"
  pw_onCancel :: "'x option"

datatype ('c, 'x) pw_next = Done bool | InvokeComplete 'c string | InvokeCancel 'x

definition new_PasswordInput :: "('c, 'x) PasswordInput" where
  "new_PasswordInput =
     \<lparr>password = [], pw_isActive = False, pw_onComplete = None, pw_onCancel = None\<rparr>"

definition PasswordInput_start ::
  "('c, 'x) PasswordInput \<Rightarrow> 'c option \<Rightarrow> 'x option \<Rightarrow> ('c, 'x) PasswordInput" where
  "PasswordInput_start p onC onX =
     p\<lparr>password := [], pw_isActive := True, pw_onComplete := onC, pw_onCancel := onX\<rparr>"

definition PasswordInput_stop :: "('c, 'x) PasswordInput \<Rightarrow> ('c, 'x) PasswordInput" where
  "PasswordInput_stop p =
     p\<lparr>pw_isActive := False, password := [], pw_onComplete := None, pw_onCancel := None\<rparr>"

definition PasswordInput_handleInput ::
  "('c, 'x) PasswordInput \<Rightarrow> string \<Rightarrow> ('c, 'x) PasswordInput \<times> string list \<times> ('c, 'x) pw_next" where
  "PasswordInput_handleInput p data =
     (if \<not> pw_isActive p then (p, [], Done False)
      else if charCodeAt0 data = Some 13 then
        (let p' = p\<lparr>pw_isActive := False, password := []\<rparr> in
         case pw_onComplete p of
           Some c \<Rightarrow> (p', [], InvokeComplete c (password p))
         | None \<Rightarrow> (p', [], Done True))
      else if charCodeAt0 data = Some 127 then
        (if length (password p) > 0
         then (p\<lparr>password := butlast (password p)\<rparr>, [[CHR 0x08, CHR '' '', CHR 0x08]], Done True)
         else (p, [], Done True))
      else if charCodeAt0 data = Some 3 then
        (let p' = p\<lparr>pw_isActive := False, password := []\<rparr> in
         case pw_onCancel p of
           Some x \<Rightarrow> (p', [], InvokeCancel x)
         | None \<Rightarrow> (p', [], Done True))
      else if charCodeAt0 data = Some 27 then (p, [], Done True)
      else if printable data then (p\<lparr>password := password p @ data\<rparr>, [PASSWORD_MASK], Done True)
      else (p, [], Done False))"

subsection \<open>SequentialFormHandler\<close>

record field =
  field_name :: string
  field_prompt :: string
  field_type :: string

text \<open>
  The form's callbacks are the caller's functions. The handler only invokes them, so a
  callback is modelled by what the handler can observe of it: it returns or it throws.
  \<open>onComplete\<close> may do either depending on the data it is given.
\<close>

datatype behaviour = Returns | Throws

datatype exn = CallbackThrew

datatype fired = Fired_onComplete "string \<rightharpoonup> string" | Fired_onCancel

text \<open>
  The fields of the object (\<open>form_fields\<close> is its \<open>fields\<close>), with the writes made to the terminal (\<open>terminal\<close>) and the
  callback invocations made so far (\<open>calls\<close>). The password input's callbacks are the two
  closures \<open>promptCurrentField\<close> creates: the first captures the prompted field, of which
  it uses the name; the second captures nothing.
\<close>

record form =
  passwordInput :: "(string, unit) PasswordInput"
  form_fields :: "field list"
  currentFieldIndex :: nat
  formData :: "string \<rightharpoonup> string"
  isActive :: bool
  onComplete :: "((string \<rightharpoonup> string) \<Rightarrow> behaviour) option"
  onCancel :: "behaviour option"
  terminal :: "string list"
  calls :: "fired list"

definition new_SequentialFormHandler :: form where
  "new_SequentialFormHandler =
     \<lparr>passwordInput = new_PasswordInput, form_fields = [], currentFieldIndex = 0,
      formData = Map.empty, isActive = False, onComplete = None, onCancel = None,
      terminal = [], calls = []\<rparr>"

definition terminal_write :: "form \<Rightarrow> string \<Rightarrow> form" where
  "terminal_write s text = s\<lparr>terminal := terminal s @ [text]\<rparr>"

definition stop :: "form \<Rightarrow> form" where
  "stop s =
     s\<lparr>isActive := False, passwordInput := PasswordInput_stop (passwordInput s),
       form_fields := [], currentFieldIndex := 0, formData := Map.empty,
       onComplete := None, onCancel := None\<rparr>"

text \<open>
  A function that can be left by a callback's exception returns \<open>Inl\<close> with the state as the
  exception found it: the statements after the call have not run.
\<close>

definition completeForm :: "form \<Rightarrow> (exn + unit) \<times> form" where
  "completeForm s =
     (let s1 = s\<lparr>isActive := False\<rparr>; data = formData s1 in
      case onComplete s1 of
        None \<Rightarrow> (Inr (), stop s1)
      | Some cb \<Rightarrow>
          (let s2 = s1\<lparr>calls := calls s1 @ [Fired_onComplete data]\<rparr> in
           case cb data of
             Throws \<Rightarrow> (Inl CallbackThrew, s2)
           | Returns \<Rightarrow> (Inr (), stop s2)))"

definition promptCurrentField :: "form \<Rightarrow> (exn + unit) \<times> form" where
  "promptCurrentField s =
     (if currentFieldIndex s \<ge> length (form_fields s) then completeForm s
      else
        (let field = form_fields s ! currentFieldIndex s;
             s1 = terminal_write s (field_prompt field @ '': '')
         in if field_type field = ''password''
            then (Inr (), s1\<lparr>passwordInput :=
                    PasswordInput_start (passwordInput s1) (Some (field_name field)) (Some ())\<rparr>)
            else (Inr (), s1)))"

definition start ::
  "form \<Rightarrow> field list \<Rightarrow> ((string \<rightharpoonup> string) \<Rightarrow> behaviour) option \<Rightarrow> behaviour option
     \<Rightarrow> (exn + unit) \<times> form" where
  "start s fs onC onX =
     promptCurrentField
       (s\<lparr>form_fields := fs, currentFieldIndex := 0, formData := Map.empty, isActive := True,
          onComplete := onC, onCancel := onX\<rparr>)"

definition handleFieldComplete :: "form \<Rightarrow> string \<Rightarrow> string \<Rightarrow> (exn + unit) \<times> form" where
  "handleFieldComplete s fieldName val =
     promptCurrentField
       (terminal_write
          (s\<lparr>formData := (formData s)(fieldName \<mapsto> val),
             currentFieldIndex := currentFieldIndex s + 1\<rparr>)
          CRLF)"

definition handleCancel :: "form \<Rightarrow> (exn + unit) \<times> form" where
  "handleCancel s =
     (let s1 = terminal_write s (CRLF @ ''^C'' @ CRLF) in
      case onCancel s1 of
        None \<Rightarrow> (Inr (), stop s1)
      | Some cb \<Rightarrow>
          (let s2 = s1\<lparr>calls := calls s1 @ [Fired_onCancel]\<rparr> in
           case cb of
             Throws \<Rightarrow> (Inl CallbackThrew, s2)
           | Returns \<Rightarrow> (Inr (), stop s2)))"

text \<open>A call whose value is dropped, followed by \<open>return true\<close>.\<close>

definition then_true :: "(exn + unit) \<times> form \<Rightarrow> (exn + bool) \<times> form" where
  "then_true r = (case r of (Inl e, s) \<Rightarrow> (Inl e, s) | (Inr _, s) \<Rightarrow> (Inr True, s))"

definition handleInput :: "form \<Rightarrow> string \<Rightarrow> (exn + bool) \<times> form" where
  "handleInput s data =
     (if \<not> isActive s then (Inr False, s)
      else if pw_isActive (passwordInput s) then
        (case PasswordInput_handleInput (passwordInput s) data of
           (p', writes, nxt) \<Rightarrow>
             (let s1 = s\<lparr>passwordInput := p', terminal := terminal s @ writes\<rparr> in
              case nxt of
                Done b \<Rightarrow> (Inr b, s1)
              | InvokeComplete fieldName pw \<Rightarrow> then_true (handleFieldComplete s1 fieldName pw)
              | InvokeCancel _ \<Rightarrow> then_true (handleCancel s1)))
      else if charCodeAt0 data = Some 3 then then_true (handleCancel s)
      else (Inr False, s))"

definition handleRegularFieldComplete :: "form \<Rightarrow> string \<Rightarrow> (exn + unit) \<times> form" where
  "handleRegularFieldComplete s val =
     (if \<not> isActive s \<or> currentFieldIndex s \<ge> length (form_fields s) then (Inr (), s)
      else
        (let field = form_fields s ! currentFieldIndex s in
         if field_type field \<noteq> ''password'' then handleFieldComplete s (field_name field) val
         else (Inr (), s)))"

text \<open>
  A callback is a function of the caller's, and it may itself call the handler.
  \<open>completeForm\<close> clears \<open>isActive\<close> before it calls \<open>onComplete\<close>, and the password input
  clears its own \<open>isActive\<close> before either of its callbacks, so the event methods find
  nothing to do when such a callback calls them. \<open>handleCancel\<close> calls \<open>onCancel\<close> while the
  form is still active. \<open>handleCancel_calling\<close> is \<open>handleCancel\<close> for a callback that acts
  on the handler: \<open>body\<close> is what the call of the callback does to the handler's state, and
  whether it returns or throws. \<open>handleInput_calling\<close> is \<open>handleInput\<close> with it.
\<close>

type_synonym reentry = "form \<Rightarrow> (exn + unit) \<times> form"

definition handleCancel_calling :: "reentry \<Rightarrow> form \<Rightarrow> (exn + unit) \<times> form" where
  "handleCancel_calling body s =
     (let s1 = terminal_write s (CRLF @ ''^C'' @ CRLF) in
      case onCancel s1 of
        None \<Rightarrow> (Inr (), stop s1)
      | Some _ \<Rightarrow>
          (let s2 = s1\<lparr>calls := calls s1 @ [Fired_onCancel]\<rparr> in
           case body s2 of
             (Inl e, s3) \<Rightarrow> (Inl e, s3)
           | (Inr _, s3) \<Rightarrow> (Inr (), stop s3)))"

definition handleInput_calling :: "reentry \<Rightarrow> form \<Rightarrow> string \<Rightarrow> (exn + bool) \<times> form" where
  "handleInput_calling body s data =
     (if \<not> isActive s then (Inr False, s)
      else if pw_isActive (passwordInput s) then
        (case PasswordInput_handleInput (passwordInput s) data of
           (p', writes, nxt) \<Rightarrow>
             (let s1 = s\<lparr>passwordInput := p', terminal := terminal s @ writes\<rparr> in
              case nxt of
                Done b \<Rightarrow> (Inr b, s1)
              | InvokeComplete fieldName pw \<Rightarrow> then_true (handleFieldComplete s1 fieldName pw)
              | InvokeCancel _ \<Rightarrow> then_true (handleCancel_calling body s1)))
      else if charCodeAt0 data = Some 3 then then_true (handleCancel_calling body s)
      else (Inr False, s))"

text \<open>A callback that leaves the handler alone, and returns or throws.\<close>

definition inert :: "behaviour \<Rightarrow> reentry" where
  "inert b s = (case b of Returns \<Rightarrow> (Inr (), s) | Throws \<Rightarrow> (Inl CallbackThrew, s))"

definition createSignupFields :: "field list" where
  "createSignupFields =
     [\<lparr>field_name = ''username'', field_prompt = ''Username'', field_type = ''text''\<rparr>,
      \<lparr>field_name = ''email'', field_prompt = ''Email'', field_type = ''text''\<rparr>,
      \<lparr>field_name = ''password'', field_prompt = ''Password'', field_type = ''password''\<rparr>,
      \<lparr>field_name = ''confirmPassword'', field_prompt = ''Confirm Password'',
       field_type = ''password''\<rparr>]"

definition createLoginFields :: "field list" where
  "createLoginFields =
     [\<lparr>field_name = ''emailOrUsername'', field_prompt = ''Email or Username'',
       field_type = ''text''\<rparr>,
      \<lparr>field_name = ''password'', field_prompt = ''Password'', field_type = ''password''\<rparr>]"

text \<open>
  The events a started form receives from the terminal: a keystroke, routed to
  \<open>handleInput\<close>, and the completed line of a text field, routed to
  \<open>handleRegularFieldComplete\<close>. An exception leaves the event's handler; the object
  keeps the state it had then, and the next event finds it so.
\<close>

datatype event = Input string | RegularFieldComplete string

definition step :: "form \<Rightarrow> event \<Rightarrow> form" where
  "step s e =
     (case e of
        Input data \<Rightarrow> snd (handleInput s data)
      | RegularFieldComplete val \<Rightarrow> snd (handleRegularFieldComplete s val))"

fun run :: "form \<Rightarrow> event list \<Rightarrow> form" where
  "run s [] = s"
| "run s (e # es) = run (step s e) es"

section \<open>Terminal (src/components/TerminalPortfolio.jsx)\<close>

subsection \<open>Terminal state and output\<close>

text \<open>
  The refs and state of the component, with what it has done to the terminal (\<open>screen\<close>:
  the writes and clears, in order) and the windows it has opened.
\<close>

datatype term_op = Write string | Clear

record tstate =
  terminalReady :: bool
  currentLine :: string
  commandHistory :: "string list"
  historyIndex :: int
  currentTheme :: string
  screen :: "term_op list"
  opened :: "string list"

definition initial_tstate :: tstate where
  "initial_tstate =
     \<lparr>terminalReady = False, currentLine = [], commandHistory = [], historyIndex = - 1,
      currentTheme = ''dark'', screen = [], opened = []\<rparr>"

definition ESC :: string where
  "ESC = [CHR 0x1B]"

definition terminal_write_raw :: "tstate \<Rightarrow> string \<Rightarrow> tstate" where
  "terminal_write_raw t text = t\<lparr>screen := screen t @ [Write text]\<rparr>"

definition terminal_clear :: "tstate \<Rightarrow> tstate" where
  "terminal_clear t = t\<lparr>screen := screen t @ [Clear]\<rparr>"

definition writeToTerminal :: "tstate \<Rightarrow> string \<Rightarrow> bool \<Rightarrow> tstate" where
  "writeToTerminal t text newLine =
     terminal_write_raw t (text @ (if newLine then CRLF else []))"

definition PROMPT :: string where
  "PROMPT = ESC @ ''[38;2;155;124;255mguest@antec'' @ ESC @ ''[0m:'' @ ESC @ ''[38;2;139;148;158m~''
            @ ESC @ ''[0m'' @ ESC @ ''[38;2;139;148;158m$'' @ ESC @ ''[0m ''"

definition showPrompt :: "tstate \<Rightarrow> tstate" where
  "showPrompt t = writeToTerminal t PROMPT False"

text \<open>
  The banner of \<open>showWelcome\<close> is drawn with box-drawing characters, which lie outside the
  characters of the model; they are kept as the bytes of their UTF-8 form.
\<close>

definition asciiLogo :: string where
  "asciiLogo =
     [CHR 0x0A]
     @ [CHR 0x20, CHR 0xE2, CHR 0x96, CHR 0x88, CHR 0xE2, CHR 0x96, CHR 0x88, CHR 0xE2, CHR 0x96, CHR 0x88,
        CHR 0xE2, CHR 0x96, CHR 0x88, CHR 0xE2, CHR 0x96, CHR 0x88, CHR 0xE2, CHR 0x95, CHR 0x97, CHR 0x20,
        CHR 0xE2, CHR 0x96, CHR 0x88, CHR 0xE2, CHR 0x96, CHR 0x88, CHR 0xE2, CHR 0x96, CHR 0x88, CHR 0xE2,
        CHR 0x95, CHR 0x97, CHR 0x20, CHR 0x20, CHR 0x20, CHR 0xE2, CHR 0x96, CHR 0x88, CHR 0xE2, CHR 0x96,
        CHR 0x88, CHR 0xE2, CHR 0x95, CHR 0x97, CHR 0xE2, CHR 0x96, CHR 0x88, CHR 0xE2, CHR 0x96, CHR 0x88,
        CHR 0xE2, CHR 0x96, CHR 0x88, CHR 0xE2, CHR 0x96, CHR 0x88, CHR 0xE2, CHR 0x96, CHR 0x88, CHR 0xE2,
        CHR 0x96, CHR 0x88, CHR 0xE2, CHR 0x96, CHR 0x88, CHR 0xE2, CHR 0x96, CHR 0x88, CHR 0xE2, CHR 0x95,
        CHR 0x97, CHR 0xE2, CHR 0x96, CHR 0x88, CHR 0xE2, CHR 0x96, CHR 0x88, CHR 0xE2, CHR 0x96, CHR 0x88,
        CHR 0xE2, CHR 0x96, CHR 0x88, CHR 0xE2, CHR 0x96, CHR 0x88, CHR 0xE2, CHR 0x96, CHR 0x88, CHR 0xE2,
        CHR 0x96, CHR 0x88, CHR 0xE2, CHR 0x95, CHR 0x97, CHR 0x20, CHR 0xE2, CHR 0x96, CHR 0x88, CHR 0xE2,
        CHR 0x96, CHR 0x88, CHR 0xE2, CHR 0x96, CHR 0x88, CHR 0xE2, CHR 0x96, CHR 0x88, CHR 0xE2, CHR 0x96,
        CHR 0x88, CHR 0xE2, CHR 0x96, CHR 0x88, CHR 0xE2, CHR 0x95, CHR 0x97, CHR 0x0A]
     @ [CHR 0xE2, CHR 0x96, CHR 0x88, CHR 0xE2, CHR 0x96, CHR 0x88, CHR 0xE2, CHR 0x95, CHR 0x94, CHR 0xE2,
        CHR 0x95, CHR 0x90, CHR 0xE2, CHR 0x95, CHR 0x90, CHR 0xE2, CHR 0x96, CHR 0x88, CHR 0xE2, CHR 0x96,
        CHR 0x88, CHR 0xE2, CHR 0x95, CHR 0x97, CHR 0xE2, CHR 0x96, CHR 0x88, CHR 0xE2, CHR 0x96, CHR 0x88,
        CHR 0xE2, CHR 0x96, CHR 0x88, CHR 0xE2, CHR 0x96, CHR 0x88, CHR 0xE2, CHR 0x95, CHR 0x97, CHR 0x20,
        CHR 0x20, CHR 0xE2, CHR 0x96, CHR 0x88, CHR 0xE2, CHR 0x96, CHR 0x88, CHR 0xE2, CHR 0x95, CHR 0x91,
        CHR 0xE2, CHR 0x95, CHR 0x9A, CHR 0xE2, CHR 0x95, CHR 0x90, CHR 0xE2, CHR 0x95, CHR 0x90, CHR 0xE2,
        CHR 0x96, CHR 0x88, CHR 0xE2, CHR 0x96, CHR 0x88, CHR 0xE2, CHR 0x95, CHR 0x94, CHR 0xE2, CHR 0x95,
        CHR 0x90, CHR 0xE2, CHR 0x95, CHR 0x90, CHR 0xE2, CHR 0x95, CHR 0x9D, CHR 0xE2, CHR 0x96, CHR 0x88,
        CHR 0xE2, CHR 0x96, CHR 0x88, CHR 0xE2, CHR 0x95, CHR 0x94, CHR 0xE2, CHR 0x95, CHR 0x90, CHR 0xE2,
        CHR 0x95, CHR 0x90, CHR 0xE2, CHR 0x95, CHR 0x90, CHR 0xE2, CHR 0x95, CHR 0x90, CHR 0xE2, CHR 0x95,
        CHR 0x9D, CHR 0xE2, CHR 0x96, CHR 0x88, CHR 0xE2, CHR 0x96, CHR 0x88, CHR 0xE2, CHR 0x95, CHR 0x94,
        CHR 0xE2, CHR 0x95, CHR 0x90, CHR 0xE2, CHR 0x95, CHR 0x90, CHR 0xE2, CHR 0x95, CHR 0x90, CHR 0xE2,
        CHR 0x95, CHR 0x90, CHR 0xE2, CHR 0x95, CHR 0x9D, CHR 0x0A]
     @ [CHR 0xE2, CHR 0x96, CHR 0x88, CHR 0xE2, CHR 0x96, CHR 0x88, CHR 0xE2, CHR 0x96, CHR 0x88, CHR 0xE2,
        CHR 0x96, CHR 0x88, CHR 0xE2, CHR 0x96, CHR 0x88, CHR 0xE2, CHR 0x96, CHR 0x88, CHR 0xE2, CHR 0x96,
        CHR 0x88, CHR 0xE2, CHR 0x95, CHR 0x91, CHR 0xE2, CHR 0x96, CHR 0x88, CHR 0xE2, CHR 0x96, CHR 0x88,
        CHR 0xE2, CHR 0x95, CHR 0x94, CHR 0xE2, CHR 0x96, CHR 0x88, CHR 0xE2, CHR 0x96, CHR 0x88, CHR 0xE2,
        CHR 0x95, CHR 0x97, CHR 0x20, CHR 0xE2, CHR 0x96, CHR 0x88, CHR 0xE2, CHR 0x96, CHR 0x88, CHR 0xE2,
        CHR 0x95, CHR 0x91, CHR 0x20, CHR 0x20, CHR 0x20, CHR 0xE2, CHR 0x96, CHR 0x88, CHR 0xE2, CHR 0x96,
        CHR 0x88, CHR 0xE2, CHR 0x95, CHR 0x91, CHR 0x20, CHR 0x20, CHR 0x20, CHR 0xE2, CHR 0x96, CHR 0x88,
        CHR 0xE2, CHR 0x96, CHR 0x88, CHR 0xE2, CHR 0x96, CHR 0x88, CHR 0xE2, CHR 0x96, CHR 0x88, CHR 0xE2,
        CHR 0x96, CHR 0x88, CHR 0xE2, CHR 0x95, CHR 0x97, CHR 0x20, CHR 0x20, CHR 0xE2, CHR 0x96, CHR 0x88,
        CHR 0xE2, CHR 0x96, CHR 0x88, CHR 0xE2, CHR 0x95, CHR 0x91, CHR 0x20, CHR 0x20, CHR 0x20, CHR 0x20,
        CHR 0x20, CHR 0x0A]
     @ [CHR 0xE2, CHR 0x96, CHR 0x88, CHR 0xE2, CHR 0x96, CHR 0x88, CHR 0xE2, CHR 0x95, CHR 0x94, CHR 0xE2,
        CHR 0x95, CHR 0x90, CHR 0xE2, CHR 0x95, CHR 0x90, CHR 0xE2, CHR 0x96, CHR 0x88, CHR 0xE2, CHR 0x96,
        CHR 0x88, CHR 0xE2, CHR 0x95, CHR 0x91, CHR 0xE2, CHR 0x96, CHR 0x88, CHR 0xE2, CHR 0x96, CHR 0x88,
        CHR 0xE2, CHR 0x95, CHR 0x91, CHR 0xE2, CHR 0x95, CHR 0x9A, CHR 0xE2, CHR 0x96, CHR 0x88, CHR 0xE2,
        CHR 0x96, CHR 0x88, CHR 0xE2, CHR 0x95, CHR 0x97, CHR 0xE2, CHR 0x96, CHR 0x88, CHR 0xE2, CHR 0x96,
        CHR 0x88, CHR 0xE2, CHR 0x95, CHR 0x91, CHR 0x20, CHR 0x20, CHR 0x20, CHR 0xE2, CHR 0x96, CHR 0x88,
        CHR 0xE2, CHR 0x96, CHR 0x88, CHR 0xE2, CHR 0x95, CHR 0x91, CHR 0x20, CHR 0x20, CHR 0x20, CHR 0xE2,
        CHR 0x96, CHR 0x88, CHR 0xE2, CHR 0x96, CHR 0x88, CHR 0xE2, CHR 0x95, CHR 0x94, CHR 0xE2, CHR 0x95,
        CHR 0x90, CHR 0xE2, CHR 0x95, CHR 0x90, CHR 0xE2, CHR 0x95, CHR 0x9D, CHR 0x20, CHR 0x20, CHR 0xE2,
        CHR 0x96, CHR 0x88, CHR 0xE2, CHR 0x96, CHR 0x88, CHR 0xE2, CHR 0x95, CHR 0x91, CHR 0x20, CHR 0x20,
        CHR 0x20, CHR 0x20, CHR 0x20, CHR 0x0A]
     @ [CHR 0xE2, CHR 0x96, CHR 0x88, CHR 0xE2, CHR 0x96, CHR 0x88, CHR 0xE2, CHR 0x95, CHR 0x91, CHR 0x20,
        CHR 0x20, CHR 0xE2, CHR 0x96, CHR 0x88, CHR 0xE2, CHR 0x96, CHR 0x88, CHR 0xE2, CHR 0x95, CHR 0x91,
        CHR 0xE2, CHR 0x96, CHR 0x88, CHR 0xE2, CHR 0x96, CHR 0x88, CHR 0xE2, CHR 0x95, CHR 0x91, CHR 0x20,
        CHR 0xE2, CHR 0x95, CHR 0x9A, CHR 0xE2, CHR 0x96, CHR 0x88, CHR 0xE2, CHR 0x96, CHR 0x88, CHR 0xE2,
        CHR 0x96, CHR 0x88, CHR 0xE2, CHR 0x96, CHR 0x88, CHR 0xE2, CHR 0x95, CHR 0x91, CHR 0x20, CHR 0x20,
        CHR 0x20, CHR 0xE2, CHR 0x96, CHR 0x88, CHR 0xE2, CHR 0x96, CHR 0x88, CHR 0xE2, CHR 0x95, CHR 0x91,
        CHR 0x20, CHR 0x20, CHR 0x20, CHR 0xE2, CHR 0x96, CHR 0x88, CHR 0xE2, CHR 0x96, CHR 0x88, CHR 0xE2,
        CHR 0x96, CHR 0x88, CHR 0xE2, CHR 0x96, CHR 0x88, CHR 0xE2, CHR 0x96, CHR 0x88, CHR 0xE2, CHR 0x96,
        CHR 0x88, CHR 0xE2, CHR 0x96, CHR 0x88, CHR 0xE2, CHR 0x95, CHR 0x97, CHR 0xE2, CHR 0x95, CHR 0x9A,
        CHR 0xE2, CHR 0x96, CHR 0x88, CHR 0xE2, CHR 0x96, CHR 0x88, CHR 0xE2, CHR 0x96, CHR 0x88, CHR 0xE2,
        CHR 0x96, CHR 0x88, CHR 0xE2, CHR 0x96, CHR 0x88, CHR 0xE2, CHR 0x96, CHR 0x88, CHR 0xE2, CHR 0x95,
        CHR 0x97, CHR 0x0A]
     @ [CHR 0xE2, CHR 0x95, CHR 0x9A, CHR 0xE2, CHR 0x95, CHR 0x90, CHR 0xE2, CHR 0x95, CHR 0x9D, CHR 0x20,
        CHR 0x20, CHR 0xE2, CHR 0x95, CHR 0x9A, CHR 0xE2, CHR 0x95, CHR 0x90, CHR 0xE2, CHR 0x95, CHR 0x9D,
        CHR 0xE2, CHR 0x95, CHR 0x9A, CHR 0xE2, CHR 0x95, CHR 0x90, CHR 0xE2, CHR 0x95, CHR 0x9D, CHR 0x20,
        CHR 0x20, CHR 0xE2, CHR 0x95, CHR 0x9A, CHR 0xE2, CHR 0x95, CHR 0x90, CHR 0xE2, CHR 0x95, CHR 0x90,
        CHR 0xE2, CHR 0x95, CHR 0x90, CHR 0xE2, CHR 0x95, CHR 0x9D, CHR 0x20, CHR 0x20, CHR 0x20, CHR 0xE2,
        CHR 0x95, CHR 0x9A, CHR 0xE2, CHR 0x95, CHR 0x90, CHR 0xE2, CHR 0x95, CHR 0x9D, CHR 0x20, CHR 0x20,
        CHR 0x20, CHR 0xE2, CHR 0x95, CHR 0x9A, CHR 0xE2, CHR 0x95, CHR 0x90, CHR 0xE2, CHR 0x95, CHR 0x90,
        CHR 0xE2, CHR 0x95, CHR 0x90, CHR 0xE2, CHR 0x95, CHR 0x90, CHR 0xE2, CHR 0x95, CHR 0x90, CHR 0xE2,
        CHR 0x95, CHR 0x90, CHR 0xE2, CHR 0x95, CHR 0x9D, CHR 0x20, CHR 0xE2, CHR 0x95, CHR 0x9A, CHR 0xE2,
        CHR 0x95, CHR 0x90, CHR 0xE2, CHR 0x95, CHR 0x90, CHR 0xE2, CHR 0x95, CHR 0x90, CHR 0xE2, CHR 0x95,
        CHR 0x90, CHR 0xE2, CHR 0x95, CHR 0x90, CHR 0xE2, CHR 0x95, CHR 0x9D]"

definition showWelcome :: "tstate \<Rightarrow> tstate" where
  \<open>showWelcome t =
     (let t1 = terminal_clear t;
          t2 = writeToTerminal t1 (ESC @ ''[38;2;155;124;255m'' @ asciiLogo @ ESC @ ''[0m'') True;
          t3 = writeToTerminal t2 [] True;
          t4 = writeToTerminal t3 ''Welcome to my terminal portfolio. (Version 1.3.1)'' True;
          t5 = writeToTerminal t4 ''----'' True;
          t6 = writeToTerminal t5 [] True;
          t7 = writeToTerminal t6
                 (''This project's source code can be found in this project's '' @ ESC
                  @ ''[38;2;6;182;212m'' @ ESC
                  @ '']8;;https://github.com/antik1108/Terminal-Portfolio-ANTEC'' @ ESC
                  @ [CHR 0x5C] @ ''GitHub repo'' @ ESC @ '']8;;'' @ ESC @ [CHR 0x5C] @ ESC
                  @ ''[0m.'') True;
          t8 = writeToTerminal t7 ''----'' True;
          t9 = writeToTerminal t8 [] True;
          t10 = writeToTerminal t9 (''For a list of available commands, type '' @ [CHR 0x27]
                  @ ''help'' @ [CHR 0x27] @ ''.'') True;
          t11 = writeToTerminal t10 [] True
      in showPrompt t11)\<close>

subsection \<open>Helpers of the command handlers\<close>

fun join_with :: "string \<Rightarrow> string list \<Rightarrow> string" where
  "join_with sep [] = []"
| "join_with sep [x] = x"
| "join_with sep (x # y # ys) = x @ sep @ join_with sep (y # ys)"

text \<open>
  \<open>s.split(' ')\<close> never returns an empty array: the model returns its first element and
  the list of the others.
\<close>

fun split_space :: "string \<Rightarrow> string \<times> string list" where
  "split_space [] = ([], [])"
| "split_space (c # cs) =
     (case split_space cs of
        (p, ps) \<Rightarrow> if c = CHR '' '' then ([], p # ps) else (c # p, ps))"

definition show_int :: "int \<Rightarrow> string" where
  "show_int n = (if n < 0 then ''-'' @ show_nat (nat (- n)) else show_nat (nat n))"

text \<open>
  \<open>parseInt\<close> with no radix: white space is skipped, then a sign, then \<open>0x\<close> or \<open>0X\<close>
  selects base sixteen, and the longest run of digits is read. \<open>None\<close> is \<open>NaN\<close>: there
  is no digit, or the argument is \<open>undefined\<close>.
\<close>

definition digit_val :: "nat \<Rightarrow> char \<Rightarrow> nat option" where
  "digit_val radix c =
     (let n = (of_char c :: nat);
          v = (if 48 \<le> n \<and> n \<le> 57 then Some (n - 48)
               else if 97 \<le> n \<and> n \<le> 122 then Some (n - 87)
               else if 65 \<le> n \<and> n \<le> 90 then Some (n - 55)
               else None)
      in case v of None \<Rightarrow> None | Some d \<Rightarrow> if d < radix then Some d else None)"

fun digits_value :: "nat \<Rightarrow> nat \<Rightarrow> string \<Rightarrow> nat" where
  "digits_value radix acc [] = acc"
| "digits_value radix acc (c # cs) =
     (case digit_val radix c of
        None \<Rightarrow> acc
      | Some d \<Rightarrow> digits_value radix (acc * radix + d) cs)"

definition parse_digits :: "nat \<Rightarrow> bool \<Rightarrow> string \<Rightarrow> int option" where
  "parse_digits radix negative s =
     (case s of
        [] \<Rightarrow> None
      | c # _ \<Rightarrow>
          if digit_val radix c = None then None
          else Some ((if negative then - 1 else 1) * int (digits_value radix 0 s)))"

definition parse_radix :: "bool \<Rightarrow> string \<Rightarrow> int option" where
  "parse_radix negative s =
     (if startsWith s ''0x'' \<or> startsWith s ''0X'' then parse_digits 16 negative (drop 2 s)
      else parse_digits 10 negative s)"

definition parseInt :: "string option \<Rightarrow> int option" where
  "parseInt arg =
     (case arg of
        None \<Rightarrow> None
      | Some s \<Rightarrow>
          (case dropWhile is_space s of
             [] \<Rightarrow> None
           | c # cs \<Rightarrow>
               if c = CHR ''-'' then parse_radix True cs
               else if c = CHR ''+'' then parse_radix False cs
               else parse_radix False (c # cs)))"

text \<open>\<open>args[0]\<close>, \<open>None\<close> when the array is empty; a template literal prints that as \<open>undefined\<close>.\<close>

definition first_arg :: "string list \<Rightarrow> string option" where
  "first_arg args = (case args of [] \<Rightarrow> None | a # _ \<Rightarrow> Some a)"

definition template_arg :: "string option \<Rightarrow> string" where
  "template_arg a = (case a of None \<Rightarrow> ''undefined'' | Some s \<Rightarrow> s)"

text \<open>
  The model stops (\<open>Inl\<close>) on the inputs whose effect in the program it does not describe:
  a name that the command table or the theme table only inherits from \<open>Object.prototype\<close>,
  a number beyond the integers that \<open>parseInt\<close> returns exactly, and a history entry
  read outside the history. Of such an input a theorem says nothing.
\<close>

datatype fault = InheritedProperty string | InexactNumber | UndefinedHistoryEntry

definition object_prototype_names :: "string list" where
  "object_prototype_names =
     [''constructor'', ''__defineGetter__'', ''__defineSetter__'', ''hasOwnProperty'',
      ''__lookupGetter__'', ''__lookupSetter__'', ''isPrototypeOf'', ''propertyIsEnumerable'',
      ''toString'', ''valueOf'', ''__proto__'', ''toLocaleString'']"

subsection \<open>The command table\<close>

definition text_help :: string where
  \<open>text_help =
     ''about        - about Antik Mondal\<newline>''
     @ ''clear        - clear the terminal\<newline>''
     @ ''echo         - print out anything\<newline>''
     @ ''education    - my education background\<newline>''
     @ ''email        - send an email to me\<newline>''
     @ ''gui          - go to my portfolio in GUI\<newline>''
     @ ''help         - check available commands\<newline>''
     @ ''history      - view command history\<newline>''
     @ ''projects     - view projects that I've coded\<newline>''
     @ ''pwd          - print current working directory\<newline>''
     @ ''socials      - check out my social accounts\<newline>''
     @ ''themes       - check available themes\<newline>''
     @ ''whoami       - about current user\<newline>''
     @ ''\<newline>''
     @ ''Tab or Ctrl + i => autocompletes the command\<newline>''
     @ ''Up Arrow => go back to previous command\<newline>''
     @ ''Ctrl + l => clear the terminal''\<close>

definition text_about :: string where
  \<open>text_about =
     ''Hi, my name is Antik Mondal!\<newline>''
     @ ''\<newline>''
     @ ''I'm a full-stack developer based in India.\<newline>''
     @ ''I am passionate about writing codes and\<newline>''
     @ ''developing web applications to solve real-life challenges.''\<close>

definition text_education :: string where
  \<open>text_education =
     ''Here is my education background!\<newline>''
     @ ''\<newline>''
     @ ''B.Tech (Computer Science)\<newline>''
     @ ''Newton School of Technology, Rishihood University | 2024 - 2028\<newline>''
     @ ''\<newline>''
     @ ''Higher Secondary Education\<newline>''
     @ ''Bankura Banga Vidyalaya | 2022 - 2024''\<close>

definition text_email :: string where
  \<open>text_email =
     ''antik.mondal2024@nst.rishihood.edu.in''\<close>

definition text_projects :: string where
  \<open>text_projects =
     ''"Talk is cheap. Show me the code"? I got you.\<newline>''
     @ ''Here are some of my projects you shouldn't miss\<newline>''
     @ ''\<newline>''
     @ ''1. ANTEC Terminal Portfolio\<newline>''
     @ ''   My personal terminal-style portfolio where I showcase\<newline>''
     @ ''   my projects and skills.\<newline>''
     @ ''\<newline>''
     @ ''2. SnehoAyu (mHealth Platform)\<newline>''
     @ ''   A mobile-first health application designed to support mothers\<newline>''
     @ ''   of preterm infants through post-NICU care and home-based newborn monitoring.\<newline>''
     @ ''\<newline>''
     @ ''3. Authra (Parcel Management System)\<newline>''
     @ ''   A smart, paperless parcel management system for universities \<newline>''
     @ ''   and workplaces with secure logging, notifications, and pickup tracking.\<newline>''
     @ ''\<newline>''
     @ ''\<newline>''
     @ ''Usage: projects go <project-no>\<newline>''
     @ ''eg: projects go 1''\<close>

definition text_pwd :: string where
  \<open>text_pwd =
     ''/home/antik''\<close>

definition text_socials :: string where
  \<open>text_socials =
     ''Here are my social links\<newline>''
     @ ''\<newline>''
     @ ''1. GitHub    - https://github.com/antik1108\<newline>''
     @ ''2. LinkedIn  - https://www.linkedin.com/in/antik-t30a04m/\<newline>''
     @ ''3. Twitter   - https://x.com/Antik_30\<newline>''
     @ ''4. Instagram - https://www.instagram.com/__.vi0letshadow._/\<newline>''
     @ ''\<newline>''
     @ ''Usage: socials go <social-no>\<newline>''
     @ ''eg: socials go 1''\<close>

definition text_themes :: string where
  \<open>text_themes =
     ''dark light blue-matrix espresso green-goblin ubuntu\<newline>''
     @ ''\<newline>''
     @ ''Usage: themes set <theme-name>\<newline>''
     @ ''eg: themes set ubuntu''\<close>

definition text_whoami :: string where
  \<open>text_whoami =
     ''guest''\<close>

type_synonym handler = "string list \<Rightarrow> tstate \<Rightarrow> fault + (string \<times> tstate)"

definition cmd_static :: "string \<Rightarrow> handler" where
  "cmd_static text args t = Inr (text, t)"

definition cmd_echo :: handler where
  "cmd_echo args t = Inr (join_with '' '' args, t)"

definition cmd_gui :: handler where
  "cmd_gui args t = Inr (''Opening GUI version...'', t\<lparr>opened := opened t @ [''https://antik.dev'']\<rparr>)"

definition cmd_history :: handler where
  "cmd_history args t =
     (if length (commandHistory t) = 0 then Inr (''No commands in history.'', t)
      else Inr (join_with [CHR 0x0A]
                  (map (\<lambda>(i, cmd). show_nat (i + 1) @ ''  '' @ cmd)
                     (zip [0 ..< length (commandHistory t)] (commandHistory t))), t))"

text \<open>
  \<open>'projects go'\<close> and \<open>'socials go'\<close>: the entry of the list that the number selects is
  opened in a new window.
\<close>

definition open_numbered ::
  "string \<Rightarrow> string \<Rightarrow> (string \<times> string) list \<Rightarrow> handler" where
  "open_numbered kind plural entries args t =
     (case parseInt (first_arg args) of
        None \<Rightarrow>
          Inr (kind @ '' NaN not found. Use '' @ [CHR 0x27] @ plural @ [CHR 0x27] @ '' to see available ''
               @ plural @ ''.'', t)
      | Some n \<Rightarrow>
          if 1 \<le> n \<and> n \<le> int (length entries) then
            (case entries ! nat (n - 1) of
               (name, url) \<Rightarrow> Inr (''Opening '' @ name @ ''...'', t\<lparr>opened := opened t @ [url]\<rparr>))
          else if \<bar>n\<bar> \<le> 2 ^ 53 then
            Inr (kind @ '' '' @ show_int n @ '' not found. Use '' @ [CHR 0x27] @ plural @ [CHR 0x27]
                 @ '' to see available '' @ plural @ ''.'', t)
          else Inl InexactNumber)"

definition project_list :: "(string \<times> string) list" where
  "project_list =
     [(''ANTEC Terminal Portfolio'', ''https://github.com/antik1108/Terminal-Portfolio-ANTEC''),
      (''SnehoAyu (baby-health platform)'', ''https://github.com/antik1108/SnehoAyu''),
      (''Authra (Parcel Management System)'', ''https://github.com/antik1108/Authra'')]"

definition social_list :: "(string \<times> string) list" where
  "social_list =
     [(''GitHub'', ''https://github.com/antik1108''),
      (''LinkedIn'', ''https://www.linkedin.com/in/antik-t30a04m/''),
      (''Twitter'', ''https://x.com/Antik_30''),
      (''Instagram'', ''https://www.instagram.com/__.vi0letshadow._/'')]"

definition theme_names :: "string list" where
  "theme_names = [''dark'', ''light'', ''blue-matrix'', ''espresso'', ''green-goblin'', ''ubuntu'']"

definition cmd_themes_set :: handler where
  "cmd_themes_set args t =
     (let themeName = template_arg (first_arg args) in
      if themeName \<in> set theme_names
      then Inr (''Theme set to '' @ themeName, t\<lparr>currentTheme := themeName\<rparr>)
      else if themeName \<in> set object_prototype_names then Inl (InheritedProperty themeName)
      else Inr (''Theme '' @ [CHR 0x27] @ themeName @ [CHR 0x27] @ '' not found. Use '' @ [CHR 0x27]
                @ ''themes'' @ [CHR 0x27] @ '' to see available themes.'', t))"

text \<open>The keys of \<open>commands\<close> in the order of the object literal, each with its handler.\<close>

definition commands :: "(string \<times> handler) list" where
  "commands =
     [(''welcome'', cmd_static ''WELCOME''),
      (''help'', cmd_static text_help),
      (''about'', cmd_static text_about),
      (''clear'', cmd_static ''CLEAR''),
      (''echo'', cmd_echo),
      (''education'', cmd_static text_education),
      (''email'', cmd_static text_email),
      (''gui'', cmd_gui),
      (''history'', cmd_history),
      (''projects'', cmd_static text_projects),
      (''pwd'', cmd_static text_pwd),
      (''socials'', cmd_static text_socials),
      (''themes'', cmd_static text_themes),
      (''whoami'', cmd_static text_whoami),
      (''projects go'', open_numbered ''Project'' ''projects'' project_list),
      (''socials go'', open_numbered ''Social'' ''socials'' social_list),
      (''themes set'', cmd_themes_set)]"

text \<open>\<open>commands[name]\<close>: an own property, a property inherited from \<open>Object.prototype\<close>, or nothing.\<close>

datatype lookup = Own handler | Inherited | Missing

definition commands_get :: "string \<Rightarrow> lookup" where
  "commands_get name =
     (case map_of commands name of
        Some h \<Rightarrow> Own h
      | None \<Rightarrow> if name \<in> set object_prototype_names then Inherited else Missing)"

subsection \<open>processCommand\<close>

text \<open>What \<open>processCommand\<close> does with the output of a handler; only a single command can ask for the welcome screen.\<close>

definition show_output :: "bool \<Rightarrow> string \<times> tstate \<Rightarrow> tstate" where
  "show_output single r =
     (case r of
        (output, t) \<Rightarrow>
          if output = ''CLEAR'' then showPrompt (terminal_clear t)
          else if single \<and> output = ''WELCOME'' then showWelcome t
          else showPrompt (writeToTerminal t output True))"

definition run_handler :: "bool \<Rightarrow> handler \<Rightarrow> string list \<Rightarrow> tstate \<Rightarrow> fault + tstate" where
  "run_handler single h args t =
     (case h args t of
        Inl f \<Rightarrow> Inl f
      | Inr r \<Rightarrow> Inr (show_output single r))"

definition run_single :: "string \<Rightarrow> string \<Rightarrow> string list \<Rightarrow> tstate \<Rightarrow> fault + tstate" where
  "run_single trimmedCmd baseCmd args t =
     (case commands_get baseCmd of
        Own h \<Rightarrow> run_handler True h args t
      | Inherited \<Rightarrow> Inl (InheritedProperty baseCmd)
      | Missing \<Rightarrow> Inr (showPrompt (writeToTerminal t (''Command not found: '' @ trimmedCmd) True)))"

definition processCommand :: "tstate \<Rightarrow> string \<Rightarrow> fault + tstate" where
  "processCommand t cmd =
     (let trimmedCmd = trim cmd in
      if trimmedCmd = [] then Inr (showPrompt t)
      else
        (let t1 = t\<lparr>commandHistory := commandHistory t @ [cmd]\<rparr>;
             t2 = t1\<lparr>historyIndex := int (length (commandHistory t1))\<rparr>
         in case split_space trimmedCmd of
              (baseCmd, args) \<Rightarrow>
                (case args of
                   [] \<Rightarrow> run_single trimmedCmd baseCmd args t2
                 | second # rest \<Rightarrow>
                     (case commands_get (baseCmd @ '' '' @ second) of
                        Own h \<Rightarrow> run_handler False h rest t2
                      | Inherited \<Rightarrow> Inl (InheritedProperty (baseCmd @ '' '' @ second))
                      | Missing \<Rightarrow> run_single trimmedCmd baseCmd args t2))))"

subsection \<open>The keystroke handler\<close>

text \<open>\<open>commandHistory.current[i]\<close>, \<open>None\<close> where the array has no such entry.\<close>

definition history_entry :: "string list \<Rightarrow> int \<Rightarrow> string option" where
  "history_entry h i = (if 0 \<le> i \<and> i < int (length h) then Some (h ! nat i) else None)"

definition recall :: "tstate \<Rightarrow> int \<Rightarrow> fault + tstate" where
  "recall t i =
     (let t1 = showPrompt (terminal_write_raw t ([CHR 0x0D] @ ESC @ ''[K''));
          t2 = t1\<lparr>historyIndex := i\<rparr>
      in case history_entry (commandHistory t2) i of
           None \<Rightarrow> Inl UndefinedHistoryEntry
         | Some line \<Rightarrow> Inr (terminal_write_raw (t2\<lparr>currentLine := line\<rparr>) line))"

definition single_token_commands :: "string list \<Rightarrow> string list" where
  "single_token_commands keys = filter (\<lambda>cmd. CHR '' '' \<notin> set cmd) keys"

definition tab_matches :: "string list \<Rightarrow> string \<Rightarrow> string list" where
  "tab_matches keys line =
     filter (\<lambda>cmd. startsWith cmd (toLowerCase line)) (single_token_commands keys)"

definition onData :: "tstate \<Rightarrow> string \<Rightarrow> fault + tstate" where
  "onData t data =
     (if \<not> terminalReady t then Inr t
      else if charCodeAt0 data = Some 13 then
        (case processCommand (writeToTerminal t [] True) (currentLine t) of
           Inl f \<Rightarrow> Inl f
         | Inr t1 \<Rightarrow> Inr (t1\<lparr>currentLine := []\<rparr>))
      else if charCodeAt0 data = Some 127 then
        (if length (currentLine t) > 0
         then Inr (terminal_write_raw (t\<lparr>currentLine := butlast (currentLine t)\<rparr>)
                     [CHR 0x08, CHR '' '', CHR 0x08])
         else Inr t)
      else if charCodeAt0 data = Some 9 then
        (case tab_matches (map fst commands) (currentLine t) of
           [m] \<Rightarrow>
             (let completion = drop (length (currentLine t)) m in
              Inr (terminal_write_raw (t\<lparr>currentLine := currentLine t @ completion\<rparr>) completion))
         | _ \<Rightarrow> Inr t)
      else if charCodeAt0 data = Some 12 then
        Inr ((showPrompt (terminal_clear t))\<lparr>currentLine := []\<rparr>)
      else if charCodeAt0 data = Some 27 then
        (let seq = drop 1 data in
         if seq = ''[A'' then
           (if historyIndex t > 0 then recall t (historyIndex t - 1) else Inr t)
         else if seq = ''[B'' then
           (if historyIndex t < int (length (commandHistory t)) - 1
            then recall t (historyIndex t + 1)
            else if historyIndex t = int (length (commandHistory t)) - 1
            then Inr ((showPrompt (terminal_write_raw t ([CHR 0x0D] @ ESC @ ''[K'')))
                        \<lparr>historyIndex := int (length (commandHistory t)), currentLine := []\<rparr>)
            else Inr t)
         else Inr t)
      else if printable data then
        Inr (terminal_write_raw (t\<lparr>currentLine := currentLine t @ data\<rparr>) data)
      else Inr t)"

text \<open>A sequence of keystrokes; the run ends where the model stops.\<close>

fun keys :: "tstate \<Rightarrow> string list \<Rightarrow> fault + tstate" where
  "keys t [] = Inr t"
| "keys t (d # ds) = (case onData t d of Inl f \<Rightarrow> Inl f | Inr t1 \<Rightarrow> keys t1 ds)"

text \<open>Typing a text: one keystroke for each of its characters.\<close>

definition typed :: "string \<Rightarrow> string list" where
  "typed s = map (\<lambda>c. [c]) s"

definition ENTER :: string where "ENTER = [CHR 0x0D]"
definition TAB :: string where "TAB = [CHR 0x09]"
definition UP :: string where "UP = ESC @ ''[A''"
definition DOWN :: string where "DOWN = ESC @ ''[B''"

subsection \<open>The Tab key in the apps/web variant of the component\<close>

text \<open>
  The component exists a second time, wired to the session store, the prompt manager and
  the authentication commands. Its keystroke handler starts with the same guard
  \<open>if (!terminalReady) return\<close> and then offers the keystroke to the authentication
  handler, which leaves a Tab unhandled and changes nothing: a form reacts to the codes 3,
  13, 27, 127 and to printable characters only. Its Tab branch differs: it refuses to
  complete while an authentication command is processing (\<open>processing\<close>), and it lists
  the candidates when there are several. It shows the prompt through the prompt manager.
  \<open>onData_tab_web\<close> is that handler on a keystroke whose first code is 9.
\<close>

definition getCurrentPrompt :: "auth_state option \<Rightarrow> string" where
  "getCurrentPrompt a =
     (let name = (case a of
                    None \<Rightarrow> ''guest''
                  | Some s \<Rightarrow>
                      (case user s of
                         Some u \<Rightarrow> if isAuthenticated s then username u else ''guest''
                       | None \<Rightarrow> ''guest''))
      in ESC @ ''[38;2;155;124;255m'' @ name @ ''@antec'' @ ESC @ ''[0m:'' @ ESC
         @ ''[38;2;139;148;158m~'' @ ESC @ ''[0m'' @ ESC @ ''[38;2;139;148;158m$'' @ ESC @ ''[0m '')"

definition web_command_names :: "string list" where
  "web_command_names =
     [''welcome'', ''help'', ''about'', ''clear'', ''echo'', ''education'', ''email'', ''gui'',
      ''history'', ''projects'', ''pwd'', ''socials'', ''themes'', ''whoami'', ''github'',
      ''projects go'', ''socials go'', ''themes set'', ''antec signup'', ''antec login'',
      ''antec logout'']"

definition onData_tab_web :: "bool \<Rightarrow> auth_state option \<Rightarrow> tstate \<Rightarrow> tstate" where
  "onData_tab_web processing a t =
     (if \<not> terminalReady t then t
      else if processing then
        terminal_write_raw t
          (ESC @ ''[33m'' @ ''Autocomplete disabled during authentication'' @ ESC @ ''[0m'' @ CRLF)
      else
        (case tab_matches web_command_names (currentLine t) of
           [] \<Rightarrow> t
         | [m] \<Rightarrow>
             (let completion = drop (length (currentLine t)) m in
              terminal_write_raw (t\<lparr>currentLine := currentLine t @ completion\<rparr>) completion)
         | m # m' # ms \<Rightarrow>
             (let t1 = writeToTerminal t [] True;
                  t2 = writeToTerminal t1 (join_with ''  '' (m # m' # ms)) True;
                  t3 = terminal_write_raw t2 (getCurrentPrompt a)
              in terminal_write_raw t3 (currentLine t3))))"

section \<open>Authentication commands (AuthCommandHandler.processSignup)\<close>

text \<open>
  What \<open>processSignup\<close> does, in order: its writes to the terminal, and its calls of the
  handler's own \<open>startLoadingIndicator\<close>, \<open>stopLoadingIndicator\<close> and
  \<open>finishAuthCommand\<close>, the last one directly or from a timer (\<open>After\<close>, with the delay in
  milliseconds). Its call of \<open>auth.signup\<close> acts on the store, the storage and the network.
\<close>

datatype ach_effect =
    Terminal_write string
  | StartLoadingIndicator string
  | StopLoadingIndicator
  | FinishAuthCommand
  | After nat ach_effect

datatype color = Green | Red | Yellow | Blue | Magenta | Cyan

definition color_code :: "color \<Rightarrow> string" where
  "color_code c =
     (case c of Green \<Rightarrow> ESC @ ''[32m'' | Red \<Rightarrow> ESC @ ''[31m'' | Yellow \<Rightarrow> ESC @ ''[33m''
      | Blue \<Rightarrow> ESC @ ''[34m'' | Magenta \<Rightarrow> ESC @ ''[35m'' | Cyan \<Rightarrow> ESC @ ''[36m'')"

definition writeColoredText :: "string \<Rightarrow> color \<Rightarrow> ach_effect list" where
  "writeColoredText text c = [Terminal_write (color_code c @ text @ ESC @ ''[0m'' @ CRLF)]"

text \<open>
  The argument of \<open>writeErrorMessage\<close>: a string, or an object of which the message and the
  list of validation errors are read.
\<close>

datatype error_arg = Message string | ErrorObject "string option" "verr list"

definition writeErrorMessage :: "error_arg \<Rightarrow> ach_effect list" where
  "writeErrorMessage e =
     (case e of
        Message m \<Rightarrow> writeColoredText m Red
      | ErrorObject m es \<Rightarrow>
          if length es > 0 then
            writeColoredText ''Validation errors:'' Red
            @ concat (map (\<lambda>err. writeColoredText (''  '' @ err_field err @ '': '' @ err_text err) Red) es)
          else writeColoredText (case m of Some x \<Rightarrow> if x \<noteq> [] then x else ''An error occurred''
                                         | None \<Rightarrow> ''An error occurred'') Red)"

definition writeSuccessMessage :: "string \<Rightarrow> ach_effect list" where
  "writeSuccessMessage m = writeColoredText m Green"

definition validateConfirmation :: "string option \<Rightarrow> string option \<Rightarrow> bool" where
  "validateConfirmation pw confirmPassword = (pw = confirmPassword)"

text \<open>
  \<open>processSignup\<close> for the data of a completed form. \<open>outcome\<close> is the network's answer to
  the request, if one is sent; \<open>latestAuthenticated\<close> is what the handler's view of the
  store says of \<open>isAuthenticated\<close> when the call of \<open>signup\<close> has returned.
\<close>

definition processSignup ::
  "world \<Rightarrow> formdata \<Rightarrow> post_outcome \<Rightarrow> bool \<Rightarrow> ach_effect list \<times> world" where
  "processSignup w userData outcome latestAuthenticated =
     (let validation = validateSignupRequest userData in
      if \<not> isValid validation then
        (writeErrorMessage (ErrorObject None (errors validation)) @ [FinishAuthCommand], w)
      else if \<not> validateConfirmation (userData ''password'') (userData ''confirmPassword'') then
        (writeErrorMessage (Message PASSWORD_MISMATCH) @ [FinishAuthCommand], w)
      else
        (case signup w userData outcome of
           (Inr response, w1) \<Rightarrow>
             if success response then
               ([StartLoadingIndicator ''Creating account'', StopLoadingIndicator]
                @ writeSuccessMessage SUCCESS_SIGNUP
                @ (if latestAuthenticated then writeSuccessMessage SUCCESS_AUTO_LOGIN else [])
                @ [After 800 FinishAuthCommand], w1)
             else
               ([StartLoadingIndicator ''Creating account'', StopLoadingIndicator]
                @ writeErrorMessage
                    (Message (case rmessage response of
                                Some m \<Rightarrow> if m \<noteq> [] then m else ''Signup failed. Please try again.''
                              | None \<Rightarrow> ''Signup failed. Please try again.''))
                @ [FinishAuthCommand], w1)
         | (Inl err, w1) \<Rightarrow>
             ([StartLoadingIndicator ''Creating account'', StopLoadingIndicator]
              @ writeErrorMessage (ErrorObject (Some (api_message err)) (api_errors err))
              @ [FinishAuthCommand], w1)))"

section \<open>Scenarios\<close>

text \<open>The concrete inputs of the scenarios below.\<close>

definition ready_tstate :: tstate where
  "ready_tstate = initial_tstate\<lparr>terminalReady := True\<rparr>"

definition line_after :: "tstate \<Rightarrow> string list \<Rightarrow> fault + string" where
  "line_after t ks = (case keys t ks of Inl f \<Rightarrow> Inl f | Inr t' \<Rightarrow> Inr (currentLine t'))"

definition submit_whoami_help :: "string list" where
  "submit_whoami_help = typed ''whoami'' @ [ENTER] @ typed ''help'' @ [ENTER]"

definition empty_world :: world where
  "empty_world =
     \<lparr>auth = initialState, store = \<lparr>stored_token = None, stored_user = None\<rparr>,
      requests = [], emitted = []\<rparr>"

definition bob :: user where
  "bob = \<lparr>user_id = ''1'', username = ''bob'', email = ''bob@x.com''\<rparr>"

definition bob_accepted :: post_outcome where
  "bob_accepted =
     Resolved \<lparr>success = True, rmessage = Some ''ok'', ruser = Some bob, rtoken = Some ''t0k3n''\<rparr>"

definition network_down :: post_outcome where
  "network_down = Rejected (APIError ''Connection error. Please try again.'' 0 ''NETWORK_ERROR'' [])"

definition bob_credentials :: formdata where
  "bob_credentials = [''emailOrUsername'' \<mapsto> ''bob'', ''password'' \<mapsto> ''Aa1!aaaa'']"

definition mismatched_signup :: formdata where
  "mismatched_signup =
     [''username'' \<mapsto> ''bob'', ''email'' \<mapsto> ''bob@x.com'', ''password'' \<mapsto> ''Aa1!aaaa'',
      ''confirmPassword'' \<mapsto> ''Aa1!aaab'']"

definition username_field :: field where
  "username_field = \<lparr>field_name = ''username'', field_prompt = ''Username'', field_type = ''text''\<rparr>"

text \<open>A one-field form, started on a fresh handler with the given callbacks.\<close>

definition one_field_form ::
  "((string \<rightharpoonup> string) \<Rightarrow> behaviour) option \<Rightarrow> behaviour option \<Rightarrow> form" where
  "one_field_form onC onX = snd (start new_SequentialFormHandler [username_field] onC onX)"

text \<open>The login form, started on a fresh handler with callbacks that return.\<close>

definition login_form :: form where
  "login_form =
     snd (start new_SequentialFormHandler createLoginFields (Some (\<lambda>_. Returns)) (Some Returns))"

definition CTRL_C :: string where "CTRL_C = [CHR 0x03]"

text \<open>The callback \<open>() => handler.handleRegularFieldComplete('bob')\<close>.\<close>

definition submits_bob :: reentry where
  "submits_bob h = handleRegularFieldComplete h ''bob''"

definition typing_secret :: "(string, unit) PasswordInput" where
  "typing_secret =
     \<lparr>password = ''secret'', pw_isActive = True, pw_onComplete = Some ''password'',
      pw_onCancel = Some ()\<rparr>"

section \<open>Properties of the session store\<close>

text \<open>
  C1. After the two synchronous dispatches of \<open>signup\<close> and of \<open>login\<close> the store is
  loading, but its phase is not \<open>AUTHENTICATING\<close>: \<open>CLEAR_ERROR\<close> has replaced the phase
  that \<open>SET_LOADING\<close> had just set by the one it computes from the identity,
  \<open>AUTHENTICATED\<close> with an identity attached and \<open>UNAUTHENTICATED\<close> without. \<open>logout\<close>,
  which dispatches \<open>SET_LOADING\<close> alone, does reach \<open>AUTHENTICATING\<close>.
\<close>

theorem signup_login_prefix_phase:
  "authState (signup_dispatch_prefix s) = (if user s \<noteq> None then AUTHENTICATED else UNAUTHENTICATED)
   \<and> authState (login_dispatch_prefix s) = (if user s \<noteq> None then AUTHENTICATED else UNAUTHENTICATED)
   \<and> authState (signup_dispatch_prefix s) \<noteq> AUTHENTICATING
   \<and> authState (login_dispatch_prefix s) \<noteq> AUTHENTICATING
   \<and> loading (signup_dispatch_prefix s) \<and> loading (login_dispatch_prefix s)
   \<and> authState (logout_dispatch_prefix s) = AUTHENTICATING"
  by (simp add: signup_dispatch_prefix_def login_dispatch_prefix_def logout_dispatch_prefix_def)

lemma logout_world:
  "logout w outcome =
     (logout_success,
      \<lparr>auth = initialState, store = \<lparr>stored_token = None, stored_user = None\<rparr>,
       requests = requests w @ [(''/auth/logout'', Map.empty)], emitted = emitted w @ [None]\<rparr>)"
  by (cases outcome)
     (simp_all add: logout_def AuthClient_logout_def post_def clearAuthData_def dispatch_def
        emitAuthChange_def logout_dispatch_prefix_def initialState_def Let_def)

lemma guest_prompt:
  "\<not> (isAuthenticated s \<and> user s \<noteq> None) \<Longrightarrow> getPlainPrompt (Some s) = ''guest@antec:~$ ''"
  by (auto simp: getPlainPrompt_def split: option.splits)

text \<open>
  C5. Whatever the login did and whatever the service answers to the logout request, a
  logout returns success and leaves the store in its initial state (phase
  \<open>UNAUTHENTICATED\<close>, no identity) and the storage without token and user. If the prompt
  was the guest prompt before the login, it is that same string after the logout.
\<close>

theorem login_logout_round_trip:
  assumes "\<not> (isAuthenticated (auth w) \<and> user (auth w) \<noteq> None)"
  shows "fst (logout (snd (login w credentials answer)) answer') = logout_success
    \<and> success (fst (logout (snd (login w credentials answer)) answer'))
    \<and> auth (snd (logout (snd (login w credentials answer)) answer')) = initialState
    \<and> authState (auth (snd (logout (snd (login w credentials answer)) answer'))) = UNAUTHENTICATED
    \<and> user (auth (snd (logout (snd (login w credentials answer)) answer'))) = None
    \<and> \<not> isAuthenticated (auth (snd (logout (snd (login w credentials answer)) answer')))
    \<and> store (snd (logout (snd (login w credentials answer)) answer'))
        = \<lparr>stored_token = None, stored_user = None\<rparr>
    \<and> getPlainPrompt (Some (auth (snd (logout (snd (login w credentials answer)) answer'))))
        = ''guest@antec:~$ ''
    \<and> getPlainPrompt (Some (auth (snd (logout (snd (login w credentials answer)) answer'))))
        = getPlainPrompt (Some (auth w))"
proof -
  have g: "getPlainPrompt (Some (auth w)) = ''guest@antec:~$ ''"
    using assms by (rule guest_prompt)
  have i: "getPlainPrompt (Some initialState) = ''guest@antec:~$ ''"
    by (simp add: getPlainPrompt_def initialState_def)
  show ?thesis
    by (simp add: logout_world g i) (simp add: initialState_def logout_success_def)
qed

lemma bob_logged_in:
  "auth (snd (login empty_world bob_credentials bob_accepted))
     = \<lparr>user = Some bob, isAuthenticated = True, loading = False, error = None,
        authState = AUTHENTICATED\<rparr>
   \<and> stored_token (store (snd (login empty_world bob_credentials bob_accepted))) = Some ''t0k3n''
   \<and> getPlainPrompt (Some (auth (snd (login empty_world bob_credentials bob_accepted))))
       = ''bob@antec:~$ ''"
  by code_simp

text \<open>
  The round trip of a guest who logs in as bob and logs out while the network is down:
  the prompt is the guest prompt, then bob's, then the guest prompt again.
\<close>

theorem login_logout_round_trip_witness:
  "\<not> (isAuthenticated (auth empty_world) \<and> user (auth empty_world) \<noteq> None)
   \<and> getPlainPrompt (Some (auth empty_world)) = ''guest@antec:~$ ''
   \<and> getPlainPrompt (Some (auth (snd (login empty_world bob_credentials bob_accepted))))
       = ''bob@antec:~$ ''
   \<and> getPlainPrompt
        (Some (auth (snd (logout (snd (login empty_world bob_credentials bob_accepted)) network_down))))
       = getPlainPrompt (Some (auth empty_world))
   \<and> store (snd (logout (snd (login empty_world bob_credentials bob_accepted)) network_down))
       = \<lparr>stored_token = None, stored_user = None\<rparr>"
proof -
  have h: "\<not> (isAuthenticated (auth empty_world) \<and> user (auth empty_world) \<noteq> None)"
    by (simp add: empty_world_def initialState_def)
  have g: "getPlainPrompt (Some (auth empty_world)) = ''guest@antec:~$ ''"
    using h by (rule guest_prompt)
  note r = login_logout_round_trip [OF h, of bob_credentials bob_accepted network_down]
  have p: "getPlainPrompt
        (Some (auth (snd (logout (snd (login empty_world bob_credentials bob_accepted)) network_down))))
       = getPlainPrompt (Some (auth empty_world))"
    using r by blast
  have s: "store (snd (logout (snd (login empty_world bob_credentials bob_accepted)) network_down))
       = \<lparr>stored_token = None, stored_user = None\<rparr>"
    using r by blast
  have b: "getPlainPrompt (Some (auth (snd (login empty_world bob_credentials bob_accepted))))
       = ''bob@antec:~$ ''"
    using bob_logged_in by blast
  show ?thesis
    using h g b p s by blast
qed

section \<open>Properties of the form handler\<close>

lemma inactive_step: "\<not> isActive s \<Longrightarrow> step s e = s"
  by (cases e) (simp_all add: step_def handleInput_def handleRegularFieldComplete_def)

lemma inactive_run: "\<not> isActive s \<Longrightarrow> run s evs = s"
  by (induction evs) (simp_all add: inactive_step)

lemma snd_then_true: "snd (then_true r) = snd r"
  by (cases r) (auto simp: then_true_def split: sum.splits)

lemma completeForm_inactive: "\<not> isActive (snd (completeForm s))"
  by (simp add: completeForm_def stop_def Let_def split: option.splits behaviour.splits)

lemma promptCurrentField_done:
  "length (form_fields s) \<le> currentFieldIndex s \<Longrightarrow> promptCurrentField s = completeForm s"
  by (simp add: promptCurrentField_def)

lemma promptCurrentField_more:
  "currentFieldIndex s < length (form_fields s) \<Longrightarrow>
   snd (promptCurrentField s) =
     (let f = form_fields s ! currentFieldIndex s;
          s1 = terminal_write s (field_prompt f @ '': '')
      in if field_type f = ''password''
         then s1\<lparr>passwordInput :=
                  PasswordInput_start (passwordInput s1) (Some (field_name f)) (Some ())\<rparr>
         else s1)"
  by (simp add: promptCurrentField_def Let_def)

subsection \<open>The two callbacks of one form\<close>

lemmas form_simps =
  start_def step_def handleInput_def handleRegularFieldComplete_def handleFieldComplete_def
  handleCancel_def promptCurrentField_def completeForm_def stop_def then_true_def
  terminal_write_def new_SequentialFormHandler_def new_PasswordInput_def
  PasswordInput_handleInput_def PasswordInput_start_def PasswordInput_stop_def
  charCodeAt0_def printable_def Let_def

text \<open>\<open>handleCancel\<close> and \<open>handleInput\<close> are the case of an \<open>onCancel\<close> that leaves the handler alone.\<close>

lemma handleCancel_inert:
  "onCancel s = Some b \<Longrightarrow> handleCancel s = handleCancel_calling (inert b) s"
  by (simp add: handleCancel_def handleCancel_calling_def inert_def terminal_write_def Let_def
      split: behaviour.splits)

lemma handleCancel_unset:
  "onCancel s = None \<Longrightarrow> handleCancel s = handleCancel_calling body s"
  by (simp add: handleCancel_def handleCancel_calling_def terminal_write_def Let_def)

lemma handleInput_inert:
  "onCancel s = Some b \<Longrightarrow> handleInput s data = handleInput_calling (inert b) s data"
  by (simp add: handleInput_def handleInput_calling_def handleCancel_inert Let_def
      split: prod.splits pw_next.splits)

text \<open>
  C2. The callbacks of one form can both fire. \<open>handleCancel\<close> calls \<open>onCancel\<close> before
  \<open>stop()\<close> and does not clear \<open>isActive\<close> first, as \<open>completeForm\<close> does. With an
  \<open>onCancel\<close> that hands a line to the handler and returns, one Ctrl+C on a one-field form
  fires \<open>onCancel\<close> and then \<open>onComplete\<close>, and only then is the form stopped. With an
  \<open>onCancel\<close> that throws, \<open>stop()\<close> is not reached, the form stays active with both
  callbacks set, and the next completed line fires \<open>onComplete\<close>.
\<close>

theorem cancel_fires_both_callbacks:
  "calls (snd (handleInput_calling submits_bob
                 (one_field_form (Some (\<lambda>_. Returns)) (Some Returns)) CTRL_C))
     = [Fired_onCancel, Fired_onComplete [''username'' \<mapsto> ''bob'']]
   \<and> \<not> isActive (snd (handleInput_calling submits_bob
                         (one_field_form (Some (\<lambda>_. Returns)) (Some Returns)) CTRL_C))
   \<and> calls (run (one_field_form (Some (\<lambda>_. Returns)) (Some Throws))
               [Input CTRL_C, RegularFieldComplete ''bob''])
     = [Fired_onCancel, Fired_onComplete [''username'' \<mapsto> ''bob'']]
   \<and> isActive (run (one_field_form (Some (\<lambda>_. Returns)) (Some Throws)) [Input CTRL_C])"
  by (simp add: one_field_form_def username_field_def CTRL_C_def submits_bob_def
      handleInput_calling_def handleCancel_calling_def form_simps)

subsection \<open>Completion of the final field\<close>

text \<open>
  C3 (amended). When the final field completes, \<open>onComplete\<close> is invoked exactly once, with
  the collected values. If it returns normally, all collector state is discarded: the
  fields, the index, the data, both callbacks, the active flag and the password input's
  state. If it throws, the exception leaves \<open>completeForm\<close> before \<open>stop()\<close>: the active
  flag is cleared, and the fields, the index, the data and the callbacks are kept.
\<close>

theorem final_field_completion:
  assumes "Suc (currentFieldIndex s) = length (form_fields s)"
    and "onComplete s = Some cb"
  shows "(cb ((formData s)(n \<mapsto> v)) = Returns \<longrightarrow>
            handleFieldComplete s n v =
              (Inr (),
               \<lparr>passwordInput = new_PasswordInput, form_fields = [], currentFieldIndex = 0,
                formData = Map.empty, isActive = False, onComplete = None, onCancel = None,
                terminal = terminal s @ [CRLF],
                calls = calls s @ [Fired_onComplete ((formData s)(n \<mapsto> v))]\<rparr>))
       \<and> (cb ((formData s)(n \<mapsto> v)) = Throws \<longrightarrow>
            handleFieldComplete s n v =
              (Inl CallbackThrew,
               s\<lparr>formData := (formData s)(n \<mapsto> v),
                 currentFieldIndex := Suc (currentFieldIndex s),
                 terminal := terminal s @ [CRLF], isActive := False,
                 calls := calls s @ [Fired_onComplete ((formData s)(n \<mapsto> v))]\<rparr>))"
  using assms
  by (simp add: handleFieldComplete_def promptCurrentField_def completeForm_def stop_def
      terminal_write_def PasswordInput_stop_def new_PasswordInput_def Let_def)

lemma one_field_form_state:
  "one_field_form onC onX =
     \<lparr>passwordInput = new_PasswordInput, form_fields = [username_field], currentFieldIndex = 0,
      formData = Map.empty, isActive = True, onComplete = onC, onCancel = onX,
      terminal = [''Username: ''], calls = []\<rparr>"
  by (simp add: one_field_form_def start_def promptCurrentField_def terminal_write_def
      new_SequentialFormHandler_def username_field_def Let_def)

text \<open>The one-field form with an \<open>onComplete\<close> that returns, at the completion of its field.\<close>

theorem final_field_completion_witness:
  "Suc (currentFieldIndex (one_field_form (Some (\<lambda>_. Returns)) None))
     = length (form_fields (one_field_form (Some (\<lambda>_. Returns)) None))
   \<and> onComplete (one_field_form (Some (\<lambda>_. Returns)) None) = Some (\<lambda>_. Returns)
   \<and> handleFieldComplete (one_field_form (Some (\<lambda>_. Returns)) None) ''username'' ''bob'' =
       (Inr (),
        \<lparr>passwordInput = new_PasswordInput, form_fields = [], currentFieldIndex = 0,
         formData = Map.empty, isActive = False, onComplete = None, onCancel = None,
         terminal = [''Username: '', CRLF],
         calls = [Fired_onComplete [''username'' \<mapsto> ''bob'']]\<rparr>)"
proof -
  have a: "Suc (currentFieldIndex (one_field_form (Some (\<lambda>_. Returns)) None))
             = length (form_fields (one_field_form (Some (\<lambda>_. Returns)) None))"
    by (simp add: one_field_form_state)
  have b: "onComplete (one_field_form (Some (\<lambda>_. Returns)) None) = Some (\<lambda>_. Returns)"
    by (simp add: one_field_form_state)
  show ?thesis
    using a b final_field_completion [OF a b, of "''username''" "''bob''"]
    by (simp add: one_field_form_state)
qed

text \<open>
  The claim as stated fails for an \<open>onComplete\<close> that throws: after the completion of the
  only field the form is inactive, but its field list, its index, its data and its callback
  are still there.
\<close>

theorem discard_after_throw_counterexample:
  "\<not> isActive (step (one_field_form (Some (\<lambda>_. Throws)) None) (RegularFieldComplete ''bob''))
   \<and> form_fields (step (one_field_form (Some (\<lambda>_. Throws)) None) (RegularFieldComplete ''bob''))
       = [username_field]
   \<and> currentFieldIndex (step (one_field_form (Some (\<lambda>_. Throws)) None) (RegularFieldComplete ''bob''))
       = 1
   \<and> formData (step (one_field_form (Some (\<lambda>_. Throws)) None) (RegularFieldComplete ''bob''))
        ''username'' = Some ''bob''
   \<and> onComplete (step (one_field_form (Some (\<lambda>_. Throws)) None) (RegularFieldComplete ''bob''))
       \<noteq> None"
  by (simp add: one_field_form_state step_def handleRegularFieldComplete_def
      handleFieldComplete_def promptCurrentField_def completeForm_def terminal_write_def
      username_field_def Let_def)

subsection \<open>The index of the current field\<close>

lemma completeForm_index:
  "currentFieldIndex (snd (completeForm s)) = currentFieldIndex s
   \<or> currentFieldIndex (snd (completeForm s)) = 0"
  by (simp add: completeForm_def stop_def Let_def split: option.splits behaviour.splits)

lemma promptCurrentField_index:
  "currentFieldIndex (snd (promptCurrentField s)) = currentFieldIndex s
   \<or> currentFieldIndex (snd (promptCurrentField s)) = 0 \<and> \<not> isActive (snd (promptCurrentField s))"
proof (cases "currentFieldIndex s < length (form_fields s)")
  case True
  then show ?thesis by (simp add: promptCurrentField_more Let_def terminal_write_def)
next
  case False
  then show ?thesis
    using completeForm_index [of s] completeForm_inactive [of s]
    by (auto simp: promptCurrentField_done)
qed

lemma handleFieldComplete_index:
  "currentFieldIndex (snd (handleFieldComplete s n v)) = Suc (currentFieldIndex s)
   \<or> currentFieldIndex (snd (handleFieldComplete s n v)) = 0
     \<and> \<not> isActive (snd (handleFieldComplete s n v))"
  using promptCurrentField_index [of "terminal_write
          (s\<lparr>formData := (formData s)(n \<mapsto> v), currentFieldIndex := currentFieldIndex s + 1\<rparr>) CRLF"]
  by (simp add: handleFieldComplete_def terminal_write_def)

lemma handleCancel_index:
  "currentFieldIndex (snd (handleCancel s)) = currentFieldIndex s
   \<or> currentFieldIndex (snd (handleCancel s)) = 0 \<and> \<not> isActive (snd (handleCancel s))"
  by (simp add: handleCancel_def stop_def Let_def terminal_write_def
      split: option.splits behaviour.splits)

lemma handleRegularFieldComplete_index:
  "currentFieldIndex (snd (handleRegularFieldComplete s v)) = currentFieldIndex s
   \<or> currentFieldIndex (snd (handleRegularFieldComplete s v)) = Suc (currentFieldIndex s)
   \<or> currentFieldIndex (snd (handleRegularFieldComplete s v)) = 0
     \<and> \<not> isActive (snd (handleRegularFieldComplete s v))"
  using handleFieldComplete_index [of s "field_name (form_fields s ! currentFieldIndex s)" v]
  by (auto simp: handleRegularFieldComplete_def Let_def)

lemma handleInput_index:
  "currentFieldIndex (snd (handleInput s d)) = currentFieldIndex s
   \<or> currentFieldIndex (snd (handleInput s d)) = Suc (currentFieldIndex s)
   \<or> currentFieldIndex (snd (handleInput s d)) = 0 \<and> \<not> isActive (snd (handleInput s d))"
proof (cases "isActive s \<and> pw_isActive (passwordInput s)")
  case False
  then show ?thesis
    using handleCancel_index [of s]
    by (auto simp: handleInput_def snd_then_true)
next
  case True
  obtain p' ws nxt where r: "PasswordInput_handleInput (passwordInput s) d = (p', ws, nxt)"
    by (cases "PasswordInput_handleInput (passwordInput s) d") auto
  let ?s1 = "s\<lparr>passwordInput := p', terminal := terminal s @ ws\<rparr>"
  show ?thesis
  proof (cases nxt)
    case (Done b)
    then show ?thesis using True r by (simp add: handleInput_def)
  next
    case (InvokeComplete n pw)
    then show ?thesis
      using True r handleFieldComplete_index [of ?s1 n pw]
      by (auto simp: handleInput_def snd_then_true)
  next
    case (InvokeCancel x)
    then show ?thesis
      using True r handleCancel_index [of ?s1]
      by (auto simp: handleInput_def snd_then_true)
  qed
qed

lemma step_index:
  "currentFieldIndex (step s e) = currentFieldIndex s
   \<or> currentFieldIndex (step s e) = Suc (currentFieldIndex s)
   \<or> currentFieldIndex (step s e) = 0 \<and> \<not> isActive (step s e)"
  using handleInput_index handleRegularFieldComplete_index
  by (cases e) (simp_all add: step_def)

lemma run_index:
  "isActive (run s evs) \<Longrightarrow> currentFieldIndex s \<le> currentFieldIndex (run s evs)"
proof (induction evs arbitrary: s)
  case Nil
  then show ?case by simp
next
  case (Cons e evs)
  have act: "isActive (step s e)"
  proof (rule ccontr)
    assume n: "\<not> isActive (step s e)"
    then have "run (step s e) evs = step s e" by (rule inactive_run)
    with Cons.prems n show False by simp
  qed
  then have "currentFieldIndex s \<le> currentFieldIndex (step s e)"
    using step_index [of s e] by auto
  moreover have "currentFieldIndex (step s e) \<le> currentFieldIndex (run (step s e) evs)"
    using Cons.IH [of "step s e"] Cons.prems by simp
  ultimately show ?case by simp
qed

lemma start_index: "currentFieldIndex (snd (start s fs onC onX)) = 0"
  using promptCurrentField_index [of "s\<lparr>form_fields := fs, currentFieldIndex := 0,
          formData := Map.empty, isActive := True, onComplete := onC, onCancel := onX\<rparr>"]
  by (auto simp: start_def)

lemma run_append: "run s (evs @ evs') = run (run s evs) evs'"
  by (induction evs arbitrary: s) simp_all

lemma step_index_active:
  "isActive (step s e) \<Longrightarrow>
   currentFieldIndex (step s e) = currentFieldIndex s
   \<or> currentFieldIndex (step s e) = Suc (currentFieldIndex s)"
  using step_index [of s e] by blast

lemma handleCancel_index_active:
  "isActive (snd (handleCancel s)) \<Longrightarrow>
   currentFieldIndex (snd (handleCancel s)) = currentFieldIndex s"
  using handleCancel_index [of s] by blast

lemma cancel_ends_form:
  "onCancel s \<noteq> Some Throws \<Longrightarrow> \<not> isActive (snd (handleCancel s))"
  by (auto simp: handleCancel_def stop_def Let_def terminal_write_def
      split: option.splits behaviour.splits)

text \<open>
  C4. For the lifetime of one form, that is for as long as the form is active, the index
  never decreases: if the form is still active after further events, the index is at
  least what it was before them, and an event after which the form is active has left the
  index as it was or advanced it by one. \<open>start()\<close> sets the index to 0. Cancellation does
  not reset the index of a form: if the form is still active after \<open>handleCancel\<close>, the
  index is as it was; with an \<open>onCancel\<close> that is absent or returns the form has
  ended, and a form that has ended ignores every event until the next \<open>start()\<close>.
\<close>

theorem index_monotone_for_one_form:
  "(isActive (run s (evs @ evs')) \<longrightarrow>
      currentFieldIndex (run s evs) \<le> currentFieldIndex (run s (evs @ evs')))
   \<and> (isActive (step s e) \<longrightarrow>
        currentFieldIndex (step s e) = currentFieldIndex s
        \<or> currentFieldIndex (step s e) = Suc (currentFieldIndex s))
   \<and> currentFieldIndex (snd (start s fs onC onX)) = 0
   \<and> (isActive (snd (handleCancel s)) \<longrightarrow>
        currentFieldIndex (snd (handleCancel s)) = currentFieldIndex s)
   \<and> (onCancel s \<noteq> Some Throws \<longrightarrow> \<not> isActive (snd (handleCancel s)))
   \<and> (\<not> isActive s \<longrightarrow> run s evs = s)"
  using run_index [of "run s evs" evs'] step_index_active [of s e]
    start_index [of s fs onC onX] handleCancel_index_active [of s] cancel_ends_form [of s]
    inactive_run [of s evs]
  by (simp add: run_append)

lemma login_form_progress:
  "isActive (run login_form ([RegularFieldComplete ''bob''] @ [Input ''x'']))
   \<and> currentFieldIndex (run login_form [RegularFieldComplete ''bob'']) = 1
   \<and> currentFieldIndex (run login_form ([RegularFieldComplete ''bob''] @ [Input ''x''])) = 1
   \<and> isActive (step login_form (RegularFieldComplete ''bob''))
   \<and> currentFieldIndex login_form = 0
   \<and> currentFieldIndex (step login_form (RegularFieldComplete ''bob'')) = 1
   \<and> onCancel (run login_form [RegularFieldComplete ''bob'']) \<noteq> Some Throws"
  by code_simp

lemma throwing_cancel_keeps_form:
  "isActive (snd (handleCancel (one_field_form None (Some Throws))))
   \<and> currentFieldIndex (one_field_form None (Some Throws)) = 0"
  by (simp add: one_field_form_def username_field_def form_simps)

text \<open>
  The login form: its first field completed and a character typed into the second. The
  index goes from 0 to 1 and stays. Ctrl+C then ends the form, which ignores the next
  line. A one-field form whose \<open>onCancel\<close> throws is still active after the cancellation,
  at the index it had.
\<close>

theorem index_monotone_for_one_form_witness:
  "isActive (run login_form ([RegularFieldComplete ''bob''] @ [Input ''x'']))
   \<and> currentFieldIndex (run login_form [RegularFieldComplete ''bob''])
       \<le> currentFieldIndex (run login_form ([RegularFieldComplete ''bob''] @ [Input ''x'']))
   \<and> isActive (step login_form (RegularFieldComplete ''bob''))
   \<and> currentFieldIndex login_form = 0
   \<and> currentFieldIndex (step login_form (RegularFieldComplete ''bob'')) = 1
   \<and> onCancel (run login_form [RegularFieldComplete ''bob'']) \<noteq> Some Throws
   \<and> \<not> isActive (snd (handleCancel (run login_form [RegularFieldComplete ''bob''])))
   \<and> run (snd (handleCancel (run login_form [RegularFieldComplete ''bob''])))
          [RegularFieldComplete ''x'']
       = snd (handleCancel (run login_form [RegularFieldComplete ''bob'']))
   \<and> isActive (snd (handleCancel (one_field_form None (Some Throws))))
   \<and> currentFieldIndex (snd (handleCancel (one_field_form None (Some Throws))))
       = currentFieldIndex (one_field_form None (Some Throws))"
proof -
  note a = index_monotone_for_one_form
             [of login_form "[RegularFieldComplete ''bob'']" "[Input ''x'']"
                 "RegularFieldComplete ''bob''"]
  note b = index_monotone_for_one_form [of "run login_form [RegularFieldComplete ''bob'']"]
  note c = index_monotone_for_one_form
             [of "snd (handleCancel (run login_form [RegularFieldComplete ''bob'']))"
                 "[RegularFieldComplete ''x'']"]
  note d = index_monotone_for_one_form [of "one_field_form None (Some Throws)"]
  have 1: "currentFieldIndex (run login_form [RegularFieldComplete ''bob''])
       \<le> currentFieldIndex (run login_form ([RegularFieldComplete ''bob''] @ [Input ''x'']))"
    using a login_form_progress by blast
  have 2: "\<not> isActive (snd (handleCancel (run login_form [RegularFieldComplete ''bob''])))"
    using b login_form_progress by blast
  have 3: "run (snd (handleCancel (run login_form [RegularFieldComplete ''bob''])))
          [RegularFieldComplete ''x'']
       = snd (handleCancel (run login_form [RegularFieldComplete ''bob'']))"
    using c 2 by blast
  have 4: "currentFieldIndex (snd (handleCancel (one_field_form None (Some Throws))))
       = currentFieldIndex (one_field_form None (Some Throws))"
    using d throwing_cancel_keeps_form by blast
  show ?thesis
    using 1 2 3 4 login_form_progress throwing_cancel_keeps_form by blast
qed

subsection \<open>The password buffer\<close>

lemma pw_enter:
  "pw_isActive p \<Longrightarrow> charCodeAt0 data = Some 13 \<Longrightarrow>
   PasswordInput_handleInput p data =
     (p\<lparr>pw_isActive := False, password := []\<rparr>, [],
      case pw_onComplete p of Some c \<Rightarrow> InvokeComplete c (password p) | None \<Rightarrow> Done True)"
  by (simp add: PasswordInput_handleInput_def Let_def split: option.splits)

lemma pw_cancel:
  "pw_isActive p \<Longrightarrow> charCodeAt0 data = Some 3 \<Longrightarrow>
   PasswordInput_handleInput p data =
     (p\<lparr>pw_isActive := False, password := []\<rparr>, [],
      case pw_onCancel p of Some x \<Rightarrow> InvokeCancel x | None \<Rightarrow> Done True)"
  by (simp add: PasswordInput_handleInput_def Let_def split: option.splits)

lemma completeForm_pw:
  "password (passwordInput s) = [] \<Longrightarrow> password (passwordInput (snd (completeForm s))) = []"
  by (simp add: completeForm_def stop_def PasswordInput_stop_def Let_def
      split: option.splits behaviour.splits)

lemma promptCurrentField_pw:
  assumes "password (passwordInput s) = []"
  shows "password (passwordInput (snd (promptCurrentField s))) = []"
proof (cases "currentFieldIndex s < length (form_fields s)")
  case True
  with assms show ?thesis
    by (simp add: promptCurrentField_more Let_def terminal_write_def PasswordInput_start_def)
next
  case False
  with assms show ?thesis
    using completeForm_pw [of s] by (auto simp: promptCurrentField_done)
qed

lemma handleFieldComplete_pw:
  "password (passwordInput s) = [] \<Longrightarrow>
   password (passwordInput (snd (handleFieldComplete s n v))) = []"
  using promptCurrentField_pw [of "terminal_write
          (s\<lparr>formData := (formData s)(n \<mapsto> v), currentFieldIndex := currentFieldIndex s + 1\<rparr>) CRLF"]
  by (simp add: handleFieldComplete_def terminal_write_def)

lemma handleCancel_pw:
  "password (passwordInput s) = [] \<Longrightarrow> password (passwordInput (snd (handleCancel s))) = []"
  by (simp add: handleCancel_def stop_def Let_def terminal_write_def PasswordInput_stop_def
      split: option.splits behaviour.splits)

lemma form_pw_cleared:
  assumes "isActive s" "pw_isActive (passwordInput s)"
    and "charCodeAt0 data = Some 13 \<or> charCodeAt0 data = Some 3"
  shows "password (passwordInput (snd (handleInput s data))) = []"
proof -
  let ?p = "(passwordInput s)\<lparr>pw_isActive := False, password := []\<rparr>"
  let ?s1 = "s\<lparr>passwordInput := ?p, terminal := terminal s @ []\<rparr>"
  have e: "password (passwordInput ?s1) = []" by simp
  from assms(3) show ?thesis
  proof
    assume c: "charCodeAt0 data = Some 13"
    show ?thesis
      using assms(1,2) pw_enter [OF assms(2) c] handleFieldComplete_pw [OF e]
      by (simp add: handleInput_def snd_then_true split: option.splits)
  next
    assume c: "charCodeAt0 data = Some 3"
    show ?thesis
      using assms(1,2) pw_cancel [OF assms(2) c] handleCancel_pw [OF e]
      by (simp add: handleInput_def snd_then_true split: option.splits)
  qed
qed

text \<open>
  C9. On Enter and on Ctrl+C, an active password input sets \<open>isActive\<close> to false and the
  buffer to the empty string before it invokes \<open>onComplete\<close>, with the password it had, or
  \<open>onCancel\<close>: the callback finds the buffer empty. In the form handler, whose two closures
  are these callbacks, the buffer of the password input is empty after such an event,
  whatever the form's callbacks do.
\<close>

theorem password_buffer_cleared_before_callback:
  "(pw_isActive p \<and> charCodeAt0 data = Some 13 \<longrightarrow>
      PasswordInput_handleInput p data =
        (p\<lparr>pw_isActive := False, password := []\<rparr>, [],
         case pw_onComplete p of Some c \<Rightarrow> InvokeComplete c (password p) | None \<Rightarrow> Done True))
   \<and> (pw_isActive p \<and> charCodeAt0 data = Some 3 \<longrightarrow>
      PasswordInput_handleInput p data =
        (p\<lparr>pw_isActive := False, password := []\<rparr>, [],
         case pw_onCancel p of Some x \<Rightarrow> InvokeCancel x | None \<Rightarrow> Done True))
   \<and> (isActive s \<and> pw_isActive (passwordInput s)
       \<and> (charCodeAt0 data = Some 13 \<or> charCodeAt0 data = Some 3) \<longrightarrow>
      password (passwordInput (snd (handleInput s data))) = [])"
  using pw_enter [of p data] pw_cancel [of p data] form_pw_cleared [of s data]
  by blast

lemma typing_secret_facts:
  "pw_isActive typing_secret \<and> charCodeAt0 ENTER = Some 13 \<and> charCodeAt0 CTRL_C = Some 3
   \<and> password typing_secret = ''secret''"
  by (simp add: typing_secret_def ENTER_def CTRL_C_def charCodeAt0_def)

lemma login_form_typing:
  "isActive (run login_form [RegularFieldComplete ''bob'', Input ''x''])
   \<and> pw_isActive (passwordInput (run login_form [RegularFieldComplete ''bob'', Input ''x'']))
   \<and> password (passwordInput (run login_form [RegularFieldComplete ''bob'', Input ''x''])) = ''x''"
  by code_simp

text \<open>
  A password input holding \<open>secret\<close>: Enter hands the password over and Ctrl+C drops it,
  and both leave the buffer empty. The login form with \<open>x\<close> typed into its password field:
  after Enter the buffer is empty.
\<close>

theorem password_buffer_cleared_before_callback_witness:
  "pw_isActive typing_secret \<and> charCodeAt0 ENTER = Some 13 \<and> charCodeAt0 CTRL_C = Some 3
   \<and> password typing_secret = ''secret''
   \<and> PasswordInput_handleInput typing_secret ENTER =
       (\<lparr>password = [], pw_isActive = False, pw_onComplete = Some ''password'',
         pw_onCancel = Some ()\<rparr>, [], InvokeComplete ''password'' ''secret'')
   \<and> PasswordInput_handleInput typing_secret CTRL_C =
       (\<lparr>password = [], pw_isActive = False, pw_onComplete = Some ''password'',
         pw_onCancel = Some ()\<rparr>, [], InvokeCancel ())
   \<and> password (passwordInput (run login_form [RegularFieldComplete ''bob'', Input ''x''])) = ''x''
   \<and> password (passwordInput
        (snd (handleInput (run login_form [RegularFieldComplete ''bob'', Input ''x'']) ENTER))) = []"
  using typing_secret_facts login_form_typing
    password_buffer_cleared_before_callback
      [of typing_secret ENTER "run login_form [RegularFieldComplete ''bob'', Input ''x'']"]
    password_buffer_cleared_before_callback [of typing_secret CTRL_C new_SequentialFormHandler]
  by (simp add: typing_secret_def)

section \<open>Properties of the terminal\<close>

text \<open>
  C6. From the empty history, after the commands \<open>whoami\<close> and \<open>help\<close> have been typed and
  submitted: two presses of Up leave \<open>whoami\<close> in the line buffer, one more press of Down
  leaves \<open>help\<close>, and a further press of Down leaves the buffer empty.
\<close>

theorem history_scenario:
  "line_after ready_tstate (submit_whoami_help @ [UP, UP]) = Inr ''whoami''
   \<and> line_after ready_tstate (submit_whoami_help @ [UP, UP, DOWN]) = Inr ''help''
   \<and> line_after ready_tstate (submit_whoami_help @ [UP, UP, DOWN, DOWN]) = Inr []"
  by code_simp

lemma several_matches:
  "length ms > 1 \<Longrightarrow> \<exists>m m' rest. ms = m # m' # rest"
  by (cases ms; cases "tl ms") auto

lemma tab_legacy:
  assumes "terminalReady t" and "length (tab_matches (map fst commands) (currentLine t)) > 1"
    and "charCodeAt0 data = Some 9"
  shows "onData t data = Inr t"
proof -
  obtain m m' ms where "tab_matches (map fst commands) (currentLine t) = m # m' # ms"
    using several_matches [OF assms(2)] by blast
  then show ?thesis using assms(1,3) by (simp add: onData_def)
qed

lemma tab_web:
  assumes "terminalReady t" and "length (tab_matches web_command_names (currentLine t)) > 1"
  shows "onData_tab_web False a t =
     t\<lparr>screen := screen t @ [Write CRLF,
          Write (join_with ''  '' (tab_matches web_command_names (currentLine t)) @ CRLF),
          Write (getCurrentPrompt a), Write (currentLine t)]\<rparr>"
proof -
  obtain m m' ms where "tab_matches web_command_names (currentLine t) = m # m' # ms"
    using several_matches [OF assms(2)] by blast
  then show ?thesis
    using assms(1)
    by (simp add: onData_tab_web_def writeToTerminal_def terminal_write_raw_def Let_def)
qed

text \<open>
  C7 (amended). When Tab is pressed and the lower-cased line buffer is a prefix of more
  than one single-token command name, in a terminal that is ready: the component of
  src/components does nothing (no output, the buffer as it was); the apps/web variant,
  when no authentication command is processing, writes a line break, the matching names
  joined by two spaces and a line break, the prompt, and the line buffer again, and
  leaves the buffer as it was.
\<close>

theorem tab_with_several_matches:
  "(terminalReady t \<and> length (tab_matches (map fst commands) (currentLine t)) > 1
      \<and> charCodeAt0 data = Some 9 \<longrightarrow> onData t data = Inr t)
   \<and> (terminalReady t \<and> length (tab_matches web_command_names (currentLine t)) > 1 \<longrightarrow>
        onData_tab_web False a t =
          t\<lparr>screen := screen t @ [Write CRLF,
               Write (join_with ''  '' (tab_matches web_command_names (currentLine t)) @ CRLF),
               Write (getCurrentPrompt a), Write (currentLine t)]\<rparr>)"
  using tab_legacy [of t data] tab_web [of t a]
  by blast

lemma matches_of_h:
  "terminalReady (ready_tstate\<lparr>currentLine := ''h''\<rparr>)
   \<and> charCodeAt0 TAB = Some 9
   \<and> currentLine (ready_tstate\<lparr>currentLine := ''h''\<rparr>) = ''h''
   \<and> screen (ready_tstate\<lparr>currentLine := ''h''\<rparr>) = []
   \<and> tab_matches (map fst commands) ''h'' = [''help'', ''history'']
   \<and> tab_matches web_command_names ''h'' = [''help'', ''history'']"
  by code_simp

text \<open>The buffer \<open>h\<close>, which \<open>help\<close> and \<open>history\<close> match, in both variants.\<close>

theorem tab_with_several_matches_witness:
  "terminalReady (ready_tstate\<lparr>currentLine := ''h''\<rparr>)
   \<and> charCodeAt0 TAB = Some 9
   \<and> tab_matches (map fst commands) ''h'' = [''help'', ''history'']
   \<and> tab_matches web_command_names ''h'' = [''help'', ''history'']
   \<and> onData (ready_tstate\<lparr>currentLine := ''h''\<rparr>) TAB = Inr (ready_tstate\<lparr>currentLine := ''h''\<rparr>)
   \<and> screen (onData_tab_web False None (ready_tstate\<lparr>currentLine := ''h''\<rparr>))
       = [Write CRLF, Write (''help  history'' @ CRLF), Write (getCurrentPrompt None), Write ''h'']"
  using matches_of_h
    tab_with_several_matches [of "ready_tstate\<lparr>currentLine := ''h''\<rparr>" TAB None]
  by simp

text \<open>
  The claim as stated fails in the component of src/components: with \<open>h\<close> in the buffer,
  which two command names match, Tab writes nothing to the terminal.
\<close>

theorem tab_prints_nothing_counterexample:
  "tab_matches (map fst commands) ''h'' = [''help'', ''history'']
   \<and> screen (ready_tstate\<lparr>currentLine := ''h''\<rparr>) = []
   \<and> onData (ready_tstate\<lparr>currentLine := ''h''\<rparr>) TAB = Inr (ready_tstate\<lparr>currentLine := ''h''\<rparr>)"
  by code_simp

lemma trim_blank: "list_all is_space s \<Longrightarrow> trim s = []"
proof -
  assume "list_all is_space s"
  then have "\<forall>x\<in>set s. is_space x" by (simp add: list_all_iff)
  then have d: "dropWhile is_space s = []" by (rule dropWhile_eq_Nil_conv [THEN iffD2])
  show ?thesis by (simp only: trim_def d rev.simps dropWhile.simps)
qed

text \<open>
  C10. Enter on a line buffer that is empty or holds white space only: the handler writes
  the line break that ends the input line and then the prompt, and nothing else (no
  output of a command, no \<open>Command not found\<close>); the history and the history cursor are
  as they were, and the buffer is reset. \<open>processCommand\<close> on such a line only shows the
  prompt.
\<close>

theorem enter_on_blank_line:
  "(terminalReady t \<and> list_all is_space (currentLine t) \<and> charCodeAt0 data = Some 13 \<longrightarrow>
      onData t data
        = Inr (t\<lparr>currentLine := [], screen := screen t @ [Write CRLF, Write PROMPT]\<rparr>))
   \<and> (list_all is_space cmd \<longrightarrow>
      processCommand t cmd = Inr (t\<lparr>screen := screen t @ [Write PROMPT]\<rparr>))"
  by (simp add: onData_def processCommand_def trim_blank showPrompt_def writeToTerminal_def
      terminal_write_raw_def)

lemma blank_line_facts:
  "terminalReady (ready_tstate\<lparr>currentLine := ''   ''\<rparr>)
   \<and> list_all is_space (currentLine (ready_tstate\<lparr>currentLine := ''   ''\<rparr>))
   \<and> charCodeAt0 ENTER = Some 13
   \<and> commandHistory (ready_tstate\<lparr>currentLine := ''   ''\<rparr>) = []
   \<and> historyIndex (ready_tstate\<lparr>currentLine := ''   ''\<rparr>) = - 1
   \<and> screen (ready_tstate\<lparr>currentLine := ''   ''\<rparr>) = []"
  by code_simp

text \<open>Three spaces and Enter on the fresh terminal: a line break and the prompt, and no history.\<close>

theorem enter_on_blank_line_witness:
  "terminalReady (ready_tstate\<lparr>currentLine := ''   ''\<rparr>)
   \<and> list_all is_space (currentLine (ready_tstate\<lparr>currentLine := ''   ''\<rparr>))
   \<and> charCodeAt0 ENTER = Some 13
   \<and> onData (ready_tstate\<lparr>currentLine := ''   ''\<rparr>) ENTER =
       Inr (ready_tstate\<lparr>currentLine := [], commandHistory := [], historyIndex := - 1,
                         screen := [Write CRLF, Write PROMPT]\<rparr>)"
  using blank_line_facts
    enter_on_blank_line [of "ready_tstate\<lparr>currentLine := ''   ''\<rparr>" ENTER "[]"]
  by (simp add: ready_tstate_def initial_tstate_def)

section \<open>Properties of the signup command\<close>

lemma valid_confirmation:
  "isValid (validateSignupRequest d) \<Longrightarrow> d ''password'' = d ''confirmPassword''"
  by (auto simp: validateSignupRequest_def validate_confirmPassword_def falsy_def Let_def
      split: if_splits option.splits)

text \<open>Data that passes the checks is sent: the request that the next theorem excludes does occur.\<close>

lemma valid_signup_sends_request:
  assumes "isValid (validateSignupRequest d)"
  shows "requests (snd (processSignup w d answer la)) = requests w @ [(''/auth/signup'', d)]"
proof -
  have c: "validateConfirmation (d ''password'') (d ''confirmPassword'')"
    using valid_confirmation [OF assms] by (simp add: validateConfirmation_def)
  have r: "requests (snd (signup w d answer)) = requests w @ [(''/auth/signup'', d)]"
    using assms
    by (cases answer)
       (auto simp: signup_def settle_def AuthClient_signup_def post_def store_session_def
          storeToken_def storeUser_def dispatch_def emitAuthChange_def Let_def
          split: option.splits)
  show ?thesis
    using assms c r
    by (auto simp: processSignup_def Let_def split: prod.splits sum.splits)
qed

text \<open>
  C8. When the data of a signup form fails the client-side checks, or its password and
  confirmation differ, \<open>processSignup\<close> writes the validation errors, of which there is at
  least one, and finishes the command; the store, the storage and the list of requests
  sent are as they were, so the signup endpoint is not invoked. The client's own
  \<open>signup\<close> refuses such data with a validation error before it sends anything.
\<close>

theorem invalid_signup_sends_no_request:
  assumes "\<not> isValid (validateSignupRequest d) \<or> d ''password'' \<noteq> d ''confirmPassword''"
  shows "processSignup w d answer la =
           (writeErrorMessage (ErrorObject None (errors (validateSignupRequest d)))
            @ [FinishAuthCommand], w)
    \<and> errors (validateSignupRequest d) \<noteq> []
    \<and> requests (snd (processSignup w d answer la)) = requests w
    \<and> AuthClient_signup w d answer =
           (Inl (APIError VALIDATION_ERROR 400 ''VALIDATION_ERROR''
                   (errors (validateSignupRequest d))), w)"
proof -
  have inv: "\<not> isValid (validateSignupRequest d)"
    using assms valid_confirmation by blast
  have 1: "processSignup w d answer la =
           (writeErrorMessage (ErrorObject None (errors (validateSignupRequest d)))
            @ [FinishAuthCommand], w)"
    using inv by (simp add: processSignup_def Let_def)
  have 2: "errors (validateSignupRequest d) \<noteq> []"
    using inv by (simp add: validateSignupRequest_def Let_def)
  have 3: "AuthClient_signup w d answer =
           (Inl (APIError VALIDATION_ERROR 400 ''VALIDATION_ERROR''
                   (errors (validateSignupRequest d))), w)"
    using inv by (simp add: AuthClient_signup_def Let_def)
  show ?thesis using 1 2 3 by simp
qed

lemma mismatched_signup_facts:
  "mismatched_signup ''password'' \<noteq> mismatched_signup ''confirmPassword''
   \<and> errors (validateSignupRequest mismatched_signup)
       = [\<lparr>err_field = ''confirmPassword'', err_text = PASSWORD_MISMATCH, err_value = None\<rparr>]"
  by code_simp

text \<open>
  A signup whose confirmation differs in its last character: two red lines and the end of
  the command, and no request, although the service would have accepted.
\<close>

theorem invalid_signup_sends_no_request_witness:
  "mismatched_signup ''password'' \<noteq> mismatched_signup ''confirmPassword''
   \<and> processSignup empty_world mismatched_signup bob_accepted False =
       ([Terminal_write (ESC @ ''[31m'' @ ''Validation errors:'' @ ESC @ ''[0m'' @ CRLF),
         Terminal_write (ESC @ ''[31m'' @ ''  confirmPassword: Passwords do not match'' @ ESC
                         @ ''[0m'' @ CRLF),
         FinishAuthCommand], empty_world)
   \<and> requests (snd (processSignup empty_world mismatched_signup bob_accepted False)) = []"
proof -
  have h: "mismatched_signup ''password'' \<noteq> mismatched_signup ''confirmPassword''"
    using mismatched_signup_facts by simp
  have e: "requests empty_world = []" by (simp add: empty_world_def)
  show ?thesis
    using h e mismatched_signup_facts
      invalid_signup_sends_no_request
        [OF disjI2 [OF h], of empty_world bob_accepted False]
    by (simp add: writeErrorMessage_def writeColoredText_def color_code_def PASSWORD_MISMATCH_def)
qed

end
